theory Spec2Isabelle
  imports Main "HOL-Library.Word"
begin

section \<open>Values shared by the connector\<close>

text \<open>
  A \<open>Buffer\<close> is a list of bytes. A JavaScript string is kept as the list of its UTF-8
  bytes (a HOL \<open>string\<close>), so \<open>Buffer.from(s)\<close> is the bytes of the characters and
  \<open>!==\<close> on strings is inequality of the lists. An optional field
  (\<open>string | null | undefined\<close>) is a \<open>string option\<close>: \<open>typeof x === 'string'\<close> is
  \<open>x \<noteq> None\<close>, and the truthiness test \<open>x ? a : b\<close> takes \<open>a\<close> for a non-empty string only.
\<close>

type_synonym bytes = "8 word list"

definition utf8 :: "string \<Rightarrow> bytes" where
  "utf8 s = map of_char s"

text \<open>
  Every \<open>throw\<close> of the source and of the libraries it calls is a value of \<open>error\<close>.
  \<open>IntegrityError\<close> is \<open>Error('Integrity check failed')\<close>; the others are raised by the
  collaborators (address parsing, wallet and BOC decoding, tweetnacl, the cell builder) and
  by the transport: \<open>TransportError\<close> is a network failure or a relay response that is
  not ok, on which \<open>TonhubHttpTransport\<close> throws.
\<close>

datatype error =
    AddressError
  | DecodeError
  | CryptoError
  | BuilderError
  | TransportError
  | IntegrityError

definition andThen :: "error + 'a \<Rightarrow> ('a \<Rightarrow> error + 'b) \<Rightarrow> error + 'b" where
  "andThen m f = (case m of Inl e \<Rightarrow> Inl e | Inr x \<Rightarrow> f x)"

record Address =
  workChain :: int
  hash :: bytes

section \<open>Cells and the builder (ton-core)\<close>

text \<open>
  A cell holds up to 1023 bits and up to 4 references. The builder of ton-core appends
  bits and references and throws when either bound is exceeded. Only the store
  operations the connector calls are modelled, with the layouts of ton-core:
  \<open>storeUint(v, n)\<close> writes \<open>n\<close> bits big-endian, \<open>storeCoins\<close> a 4-bit byte length
  followed by the value, \<open>storeAddress\<close> the tag \<open>10\<close>, a zero anycast bit, the 8-bit
  workchain and the hash, \<open>storeStringTail\<close> the bytes of the string chained through
  child cells.
\<close>

datatype Cell = Cell (bits: "bool list") (refs: "Cell list")

definition Cell_EMPTY :: Cell where
  "Cell_EMPTY = Cell [] []"

record Builder =
  b_bits :: "bool list"
  b_refs :: "Cell list"

definition beginCell :: Builder where
  "beginCell = \<lparr>b_bits = [], b_refs = []\<rparr>"

definition endCell :: "Builder \<Rightarrow> Cell" where
  "endCell b = Cell (b_bits b) (b_refs b)"

definition availableBits :: "Builder \<Rightarrow> nat" where
  "availableBits b = 1023 - length (b_bits b)"

definition storeBits :: "bool list \<Rightarrow> Builder \<Rightarrow> error + Builder" where
  "storeBits bs b =
     (if length bs > availableBits b then Inl BuilderError
      else Inr (b\<lparr>b_bits := b_bits b @ bs\<rparr>))"

fun uint_bits :: "nat \<Rightarrow> int \<Rightarrow> bool list" where
  "uint_bits 0 v = []"
| "uint_bits (Suc n) v = uint_bits n (v div 2) @ [odd v]"

definition byte_bits :: "8 word \<Rightarrow> bool list" where
  "byte_bits w = uint_bits 8 (uint w)"

definition buffer_bits :: "bytes \<Rightarrow> bool list" where
  "buffer_bits bs = concat (map byte_bits bs)"

definition storeBit :: "bool \<Rightarrow> Builder \<Rightarrow> error + Builder" where
  "storeBit v b = storeBits [v] b"

definition storeUint :: "int \<Rightarrow> nat \<Rightarrow> Builder \<Rightarrow> error + Builder" where
  "storeUint v n b =
     (if v < 0 \<or> 2 ^ n \<le> v then Inl BuilderError else storeBits (uint_bits n v) b)"

definition storeInt :: "int \<Rightarrow> nat \<Rightarrow> Builder \<Rightarrow> error + Builder" where
  "storeInt v n b =
     (if n = 0 \<or> v < - (2 ^ (n - 1)) \<or> 2 ^ (n - 1) \<le> v then Inl BuilderError
      else storeBits (uint_bits n (v mod 2 ^ n)) b)"

function byteLength :: "int \<Rightarrow> nat" where
  "byteLength v = (if v \<le> 0 then 0 else Suc (byteLength (v div 256)))"
  by pat_completeness auto
termination
  by (relation "measure nat") auto

definition storeCoins :: "int \<Rightarrow> Builder \<Rightarrow> error + Builder" where
  "storeCoins v b =
     (if v < 0 then Inl BuilderError
      else if v = 0 then storeUint 0 4 b
      else andThen (storeUint (int (byteLength v)) 4 b)
             (storeUint v (8 * byteLength v)))"

definition storeBuffer :: "bytes \<Rightarrow> Builder \<Rightarrow> error + Builder" where
  "storeBuffer src b = storeBits (buffer_bits src) b"

definition storeAddress :: "Address \<Rightarrow> Builder \<Rightarrow> error + Builder" where
  "storeAddress a b =
     andThen (storeUint 2 2 b) (\<lambda>b1.
     andThen (storeUint 0 1 b1) (\<lambda>b2.
     andThen (storeInt (workChain a) 8 b2) (\<lambda>b3.
     storeBuffer (hash a) b3)))"

definition storeRef :: "Cell \<Rightarrow> Builder \<Rightarrow> error + Builder" where
  "storeRef c b =
     (if length (b_refs b) \<ge> 4 then Inl BuilderError
      else Inr (b\<lparr>b_refs := b_refs b @ [c]\<rparr>))"

definition storeMaybeRef :: "Cell option \<Rightarrow> Builder \<Rightarrow> error + Builder" where
  "storeMaybeRef c b =
     (case c of None \<Rightarrow> storeBit False b
      | Some c' \<Rightarrow> andThen (storeBit True b) (storeRef c'))"

text \<open>
  \<open>tailCell\<close> is the chain a fresh builder makes of a buffer: 127 bytes in each cell, the
  rest in its only child. \<open>writeBuffer\<close> fills what is left of the current builder first.
\<close>

function tailCell :: "bytes \<Rightarrow> Cell" where
  "tailCell src =
     (if length src \<le> 127 then Cell (buffer_bits src) []
      else Cell (buffer_bits (take 127 src)) [tailCell (drop 127 src)])"
  by pat_completeness auto
termination
  by (relation "measure length") auto

definition writeBuffer :: "bytes \<Rightarrow> Builder \<Rightarrow> error + Builder" where
  "writeBuffer src b =
     (if src = [] then Inr b
      else let n = availableBits b div 8 in
        if length src > n
        then andThen (storeBuffer (take n src) b) (storeRef (tailCell (drop n src)))
        else storeBuffer src b)"

definition storeStringTail :: "string \<Rightarrow> Builder \<Rightarrow> error + Builder" where
  "storeStringTail s b = writeBuffer (utf8 s) b"

definition storeStringRefTail :: "string \<Rightarrow> Builder \<Rightarrow> error + Builder" where
  "storeStringRefTail s b =
     andThen (storeStringTail s beginCell) (\<lambda>t. storeRef (endCell t) b)"

text \<open>
  \<open>comment(src)\<close> of ton-core is
  \<open>beginCell().storeUint(0, 32).storeStringTail(src).endCell()\<close>. Neither store can
  overflow on a fresh builder (\<open>comment_returns\<close> below).
\<close>

definition comment :: "string \<Rightarrow> error + Cell" where
  "comment src =
     andThen (storeUint 0 32 beginCell) (\<lambda>b1.
     andThen (storeStringTail src b1) (\<lambda>b2.
     Inr (endCell b2)))"

fun bits_byte :: "bool list \<Rightarrow> 8 word" where
  "bits_byte [] = 0"
| "bits_byte (x # xs) = (if x then 2 ^ length xs else 0) + bits_byte xs"

function bits_buffer :: "bool list \<Rightarrow> bytes" where
  "bits_buffer bs = (if length bs < 8 then [] else bits_byte (take 8 bs) # bits_buffer (drop 8 bs))"
  by pat_completeness auto
termination
  by (relation "measure length") auto

text \<open>\<open>cell.beginParse().loadBuffer(n)\<close>: the first \<open>n\<close> bytes of the cell, or a throw.\<close>

definition loadBuffer :: "nat \<Rightarrow> Cell \<Rightarrow> error + bytes" where
  "loadBuffer n c =
     (if length (bits c) < 8 * n then Inl BuilderError
      else Inr (bits_buffer (take (8 * n) (bits c))))"

section \<open>External collaborators\<close>

text \<open>
  The codecs and the cryptography are not part of the connector: base64, the friendly
  address format, the BOC serialisation, the wallet-config decoder, ed25519 over the cell
  hash. They are parameters, and each one that can throw returns a sum. The retry policy
  of \<open>backoff\<close> is given by its failure budget and the delay before a retry.
\<close>

record lib =
  fromBase64 :: "string \<Rightarrow> bytes"
  toBase64 :: "bytes \<Rightarrow> string"
  toUrlSafe :: "string \<Rightarrow> string"
  parseFriendly :: "string \<Rightarrow> error + Address"
  walletV4FromConfig :: "string \<Rightarrow> error + bytes \<times> Address"
  safeSignVerify :: "Cell \<Rightarrow> bytes \<Rightarrow> bytes \<Rightarrow> error + bool"
  safeSign :: "Cell \<Rightarrow> bytes \<Rightarrow> error + bytes"
  keyPairFromSeed :: "bytes \<Rightarrow> error + bytes \<times> bytes"
  fromBoc :: "bytes \<Rightarrow> error + Cell"
  toBoc :: "Cell \<Rightarrow> bytes"
  parseBigInt :: "string \<Rightarrow> error + int"
  maxFailureCount :: nat
  retryDelay :: "nat \<Rightarrow> nat"

section \<open>Wallet configuration and its verification\<close>

record TonhubWalletConfig =
  address :: string
  endpoint :: string
  walletType :: string
  walletConfig :: string
  walletSig :: string
  appPublicKey :: string

text \<open>
  \<open>extractPublicKeyAndAddress\<close> returns \<open>null\<close> for an unknown wallet type; the decoder of
  the only known type may throw. The result is the pair of the public key and the address.
\<close>

definition extractPublicKeyAndAddress ::
  "lib \<Rightarrow> string \<Rightarrow> string \<Rightarrow> error + (bytes \<times> Address) option" where
  "extractPublicKeyAndAddress L wType wConfig =
     (if wType = ''org.ton.wallets.v4''
      then andThen (walletV4FromConfig L wConfig) (\<lambda>source. Inr (Some source))
      else Inr None)"

text \<open>The cell \<open>toSign\<close> that \<open>verifyWalletConfig\<close> builds.\<close>

definition walletConfig_toSign ::
  "lib \<Rightarrow> string \<Rightarrow> Address \<Rightarrow> TonhubWalletConfig \<Rightarrow> error + Cell" where
  "walletConfig_toSign L session addr config =
     andThen (storeCoins 0 beginCell) (\<lambda>b1.
     andThen (storeBuffer (fromBase64 L session) b1) (\<lambda>b2.
     andThen (storeAddress addr b2) (\<lambda>b3.
     andThen (storeBit True b3) (\<lambda>b4.
     andThen (storeBuffer (utf8 (endpoint config)) beginCell) (\<lambda>e.
     andThen (storeRef (endCell e) b4) (\<lambda>b5.
     andThen (storeBuffer (fromBase64 L (appPublicKey config)) beginCell) (\<lambda>k.
     andThen (storeRef (endCell k) b5) (\<lambda>b6.
     Inr (endCell b6)))))))))"

definition verifyWalletConfig :: "lib \<Rightarrow> string \<Rightarrow> TonhubWalletConfig \<Rightarrow> error + bool" where
  "verifyWalletConfig L session config =
     andThen (parseFriendly L (address config)) (\<lambda>addr.
     andThen (extractPublicKeyAndAddress L (walletType config) (walletConfig config)) (\<lambda>extracted.
       case extracted of
         None \<Rightarrow> Inr False
       | Some (publicKey, exAddress) \<Rightarrow>
           if exAddress \<noteq> addr then Inr False
           else andThen (walletConfig_toSign L session addr config) (\<lambda>toSign.
                  safeSignVerify L toSign (fromBase64 L (walletSig config)) publicKey)))"

text \<open>
  \<open>verifySignatureResponse\<close> (crypto.ts): the same address and key extraction, then the
  signature is checked against the cell that references the text cell and the payload cell.
\<close>

definition signResponse_textCell :: "string option \<Rightarrow> error + Cell" where
  "signResponse_textCell text =
     (case text of
        None \<Rightarrow> Inr Cell_EMPTY
      | Some t \<Rightarrow> if t = [] then Inr Cell_EMPTY else comment t)"

definition signResponse_payloadCell :: "lib \<Rightarrow> string option \<Rightarrow> error + Cell" where
  "signResponse_payloadCell L payload =
     (case payload of
        None \<Rightarrow> Inr Cell_EMPTY
      | Some p \<Rightarrow> fromBoc L (fromBase64 L p))"

definition verifySignatureResponse ::
  "lib \<Rightarrow> string \<Rightarrow> string option \<Rightarrow> string option \<Rightarrow> TonhubWalletConfig \<Rightarrow> error + bool" where
  "verifySignatureResponse L signature text payload config =
     andThen (parseFriendly L (address config)) (\<lambda>addr.
     andThen (extractPublicKeyAndAddress L (walletType config) (walletConfig config)) (\<lambda>extracted.
       case extracted of
         None \<Rightarrow> Inr False
       | Some (publicKey, exAddress) \<Rightarrow>
           if exAddress \<noteq> addr then Inr False
           else andThen (signResponse_textCell text) (\<lambda>textCell.
                andThen (signResponse_payloadCell L payload) (\<lambda>payloadCell.
                andThen (storeRef textCell beginCell) (\<lambda>b1.
                andThen (storeRef payloadCell b1) (\<lambda>b2.
                safeSignVerify L (endCell b2) (fromBase64 L signature) publicKey))))))"

section \<open>Relay records and the connector's results\<close>

text \<open>
  The relay's session record (\<open>SessionState\<close>) and job record (\<open>JobState\<close>), and the
  states the connector returns. The arguments of \<open>StateIniting\<close> are \<open>name\<close>, \<open>url\<close>,
  \<open>created\<close>, \<open>updated\<close>; \<open>StateReady\<close> and \<open>AwaitedReady\<close> have the wallet as the
  fifth. \<open>number\<close> fields are timestamps, kept as integers.
\<close>

datatype SessionState =
    is_not_found: not_found
  | is_initing: initing (name: string) (url: string) (testnet: bool)
      (created: int) (updated: int) (revoked: bool)
  | is_ready: ready (name: string) (url: string) (wallet: TonhubWalletConfig) (testnet: bool)
      (created: int) (updated: int) (revoked: bool)

datatype JobTag = submitted | expired | rejected

datatype JobState =
    is_job_pending: job_pending (state: JobTag) (job: string)
      (job_created: int) (job_updated: int) (now: int)
  | is_job_completed: job_completed (job: string)
      (job_created: int) (job_updated: int) (result: string) (now: int)
  | is_job_empty: job_empty (now: int)

datatype TonhubSessionState =
    StateIniting string string int int
  | StateRevoked
  | StateReady string string int int TonhubWalletConfig

datatype TonhubSessionAwaited =
    AwaitedRevoked
  | AwaitedReady string string int int TonhubWalletConfig
  | AwaitedExpired

datatype network = mainnet | testnet_net

section \<open>The world: clock and transport\<close>

text \<open>
  The connector reads the clock (\<open>Date.now()\<close>, milliseconds), sleeps (\<open>delay\<close>) and calls
  the relay through its \<open>Transport\<close>. The world is the clock and the log of the calls made
  so far. Time passes in a transport call and in \<open>delay\<close> only, and \<open>delay(ms)\<close> takes
  \<open>ms\<close> milliseconds. The transport is any deterministic function of the world and the request: it
  gives the time the round trip takes and either a throw or the reply, typed as the
  connector reads it (a session record, a job record, or \<open>{ok}\<close>).
\<close>

datatype call =
    session_new string bool string string
  | session_get string
  | session_wait string "int option"
  | command_new string
  | command_get string

record world =
  clock :: int
  calls :: "call list"

record Transport =
  session_reply :: "world \<Rightarrow> call \<Rightarrow> nat \<times> (error + SessionState)"
  job_reply :: "world \<Rightarrow> call \<Rightarrow> nat \<times> (error + JobState)"
  ok_reply :: "world \<Rightarrow> call \<Rightarrow> nat \<times> (error + bool)"

record TonhubConnector =
  network :: network
  transport :: Transport

definition after_call :: "world \<Rightarrow> call \<Rightarrow> nat \<Rightarrow> world" where
  "after_call w c d = w\<lparr>clock := clock w + int d, calls := calls w @ [c]\<rparr>"

definition call_session ::
  "TonhubConnector \<Rightarrow> call \<Rightarrow> world \<Rightarrow> (error + SessionState) \<times> world" where
  "call_session this c w =
     (case session_reply (transport this) w c of (d, r) \<Rightarrow> (r, after_call w c d))"

definition call_job ::
  "TonhubConnector \<Rightarrow> call \<Rightarrow> world \<Rightarrow> (error + JobState) \<times> world" where
  "call_job this c w =
     (case job_reply (transport this) w c of (d, r) \<Rightarrow> (r, after_call w c d))"

definition call_ok ::
  "TonhubConnector \<Rightarrow> call \<Rightarrow> world \<Rightarrow> (error + bool) \<times> world" where
  "call_ok this c w =
     (case ok_reply (transport this) w c of (d, r) \<Rightarrow> (r, after_call w c d))"

definition delay :: "nat \<Rightarrow> world \<Rightarrow> world" where
  "delay ms w = w\<lparr>clock := clock w + int ms\<rparr>"

text \<open>
  Modelled from the spec: the retry policy behind \<open>backoff\<close>. The source has
  \<open>backoff = createBackoff({maxFailureCount: 5, ...})\<close>; \<open>createBackoff\<close> itself
  (teslabot) is missing. In the specification's words: a transport error (network failure,
  relay response that is not ok) is retried under bounded backoff with a fixed maximum
  failure count, and exceeding it surfaces the transport error to the caller; an integrity
  failure is fatal and raised immediately, and so is every error that a retry cannot fix.
  The budget is \<open>maxFailureCount\<close> and the delay before the \<open>k\<close>-th retry is
  \<open>retryDelay k\<close>; both are parameters. \<open>backoff_from L n\<close> is the wrapper with \<open>n\<close>
  failures left.
\<close>

definition retryable :: "error \<Rightarrow> bool" where
  "retryable e = (e = TransportError)"

fun backoff_from ::
  "lib \<Rightarrow> nat \<Rightarrow> (world \<Rightarrow> (error + 'a) \<times> world) \<Rightarrow> world \<Rightarrow> (error + 'a) \<times> world" where
  "backoff_from L 0 f w = f w"
| "backoff_from L (Suc n) f w =
     (case f w of
        (Inr x, w') \<Rightarrow> (Inr x, w')
      | (Inl e, w') \<Rightarrow>
          if retryable e
          then backoff_from L n f (delay (retryDelay L (maxFailureCount L - n)) w')
          else (Inl e, w'))"

definition backoff ::
  "lib \<Rightarrow> (world \<Rightarrow> (error + 'a) \<times> world) \<Rightarrow> world \<Rightarrow> (error + 'a) \<times> world" where
  "backoff L f w = backoff_from L (maxFailureCount L) f w"

section \<open>Session state\<close>

definition is_testnet :: "TonhubConnector \<Rightarrow> bool" where
  "is_testnet this = (network this = testnet_net)"

definition ensureSessionStateCorrect ::
  "lib \<Rightarrow> TonhubConnector \<Rightarrow> string \<Rightarrow> SessionState \<Rightarrow> error + TonhubSessionState" where
  "ensureSessionStateCorrect L this sessionId ex =
     (case ex of
        initing n u t c upd r \<Rightarrow>
          if t \<noteq> is_testnet this then Inr StateRevoked
          else Inr (StateIniting n u c upd)
      | ready n u wlt t c upd r \<Rightarrow>
          if r then Inr StateRevoked
          else if t \<noteq> is_testnet this then Inr StateRevoked
          else andThen (verifyWalletConfig L sessionId wlt) (\<lambda>ok.
            if \<not> ok then Inl IntegrityError
            else Inr (StateReady n u c upd
                   \<lparr>address = address wlt, endpoint = endpoint wlt,
                    walletType = walletType wlt, walletConfig = walletConfig wlt,
                    walletSig = walletSig wlt, appPublicKey = appPublicKey wlt\<rparr>))
      | not_found \<Rightarrow> Inr StateRevoked)"

definition fetch_session ::
  "lib \<Rightarrow> TonhubConnector \<Rightarrow> string \<Rightarrow> call \<Rightarrow> world \<Rightarrow> (error + TonhubSessionState) \<times> world" where
  "fetch_session L this sessionId c w =
     (case call_session this c w of
        (Inl e, w') \<Rightarrow> (Inl e, w')
      | (Inr session, w') \<Rightarrow> (ensureSessionStateCorrect L this sessionId session, w'))"

definition getSessionState ::
  "lib \<Rightarrow> TonhubConnector \<Rightarrow> string \<Rightarrow> world \<Rightarrow> (error + TonhubSessionState) \<times> world" where
  "getSessionState L this sessionId w =
     backoff L (fetch_session L this sessionId (session_get sessionId)) w"

definition waitForSessionState ::
  "lib \<Rightarrow> TonhubConnector \<Rightarrow> string \<Rightarrow> int option \<Rightarrow> world
     \<Rightarrow> (error + TonhubSessionState) \<times> world" where
  "waitForSessionState L this sessionId lastUpdated w =
     backoff L (fetch_session L this sessionId (session_wait sessionId lastUpdated)) w"

text \<open>
  \<open>awaitSessionReady\<close>: the loop runs while the clock is before \<open>expires\<close>, which is
  computed once, before the retry wrapper. Every pass that sees \<open>initing\<close> sleeps 1000 ms,
  so the clock bounds the number of passes.
\<close>

function awaitSessionReady_loop ::
  "lib \<Rightarrow> TonhubConnector \<Rightarrow> string \<Rightarrow> int option \<Rightarrow> int \<Rightarrow> world
     \<Rightarrow> (error + TonhubSessionAwaited) \<times> world" where
  "awaitSessionReady_loop L this sessionId lastUpdated expires w =
     (if clock w < expires then
        (case waitForSessionState L this sessionId lastUpdated w of
           (Inl e, w') \<Rightarrow> (Inl e, w')
         | (Inr existing, w') \<Rightarrow>
             (case existing of
                StateReady n u c upd wlt \<Rightarrow> (Inr (AwaitedReady n u c upd wlt), w')
              | StateRevoked \<Rightarrow> (Inr AwaitedRevoked, w')
              | StateIniting n u c upd \<Rightarrow>
                  awaitSessionReady_loop L this sessionId lastUpdated expires (delay 1000 w')))
      else (Inr AwaitedExpired, w))"
  by pat_completeness auto
termination
proof (relation "measure (\<lambda>(L, this, sessionId, lastUpdated, expires, w). nat (expires - clock w))")
  show "wf (measure (\<lambda>(L, this, sessionId, lastUpdated, expires, w). nat (expires - clock w)))"
    by simp
next
  fix L :: lib and this :: TonhubConnector and sessionId :: string
    and lastUpdated :: "int option" and expires :: int and w :: world
    and x :: "error + TonhubSessionState" and y :: world
    and b :: TonhubSessionState and n u :: string and c upd :: int
  assume before: "clock w < expires"
    and res: "(x, y) = waitForSessionState L this sessionId lastUpdated w"
    and "x = Inr b" and "b = StateIniting n u c upd"
  have step: "clock v \<le> clock (snd (fetch_session L this sessionId k v))" for k v
    by (simp add: fetch_session_def call_session_def after_call_def split: prod.splits sum.splits)
  have mono: "clock v \<le> clock (snd (backoff_from L m (fetch_session L this sessionId k) v))"
    for m k v
  proof (induction m arbitrary: v)
    case 0
    show ?case using step [of v k] by simp
  next
    case (Suc m)
    show ?case
    proof (cases "fetch_session L this sessionId k v")
      case (Pair r v')
      have le: "clock v \<le> clock v'" using step [of v k] Pair by simp
      show ?thesis
      proof (cases r)
        case (Inr y)
        then show ?thesis using Pair le by simp
      next
        case (Inl e)
        have "clock v' \<le> clock (delay (retryDelay L (maxFailureCount L - m)) v')"
          by (simp add: delay_def)
        also have "\<dots> \<le> clock (snd (backoff_from L m (fetch_session L this sessionId k)
                      (delay (retryDelay L (maxFailureCount L - m)) v')))"
          by (rule Suc.IH)
        finally show ?thesis using Pair Inl le by simp
      qed
    qed
  qed
  have "clock w \<le> clock y"
    using mono [of w "maxFailureCount L" "session_wait sessionId lastUpdated"] res [symmetric]
    by (simp add: waitForSessionState_def backoff_def)
  then show "((L, this, sessionId, lastUpdated, expires, delay 1000 y),
              (L, this, sessionId, lastUpdated, expires, w))
             \<in> measure (\<lambda>(L, this, sessionId, lastUpdated, expires, w). nat (expires - clock w))"
    using before by (simp add: delay_def)
qed

definition awaitSessionReady ::
  "lib \<Rightarrow> TonhubConnector \<Rightarrow> string \<Rightarrow> int \<Rightarrow> int option \<Rightarrow> world
     \<Rightarrow> (error + TonhubSessionAwaited) \<times> world" where
  "awaitSessionReady L this sessionId timeout lastUpdated w =
     (let expires = clock w + timeout
      in backoff L (awaitSessionReady_loop L this sessionId lastUpdated expires) w)"

section \<open>Job state\<close>

text \<open>
  \<open>_getJobState\<close> and \<open>_awaitJobState\<close> (private members; an Isabelle name cannot start
  with an underscore). The result of \<open>_getJobState\<close> is \<open>GotJobState\<close>, that of
  \<open>_awaitJobState\<close> is \<open>AwaitedJob\<close>. For a record of the declared type \<open>JobState\<close> the
  final \<open>throw Error('Invalid response from server')\<close> is not reached.
\<close>

datatype GotJobState = got_expired | got_rejected | got_submitted | got_completed string

datatype AwaitedJob = awaited_completed string | awaited_rejected | awaited_expired

definition jobStateOf :: "string \<Rightarrow> JobState \<Rightarrow> GotJobState" where
  "jobStateOf boc res =
     (case res of
        job_empty t \<Rightarrow> got_expired
      | job_pending st j c u t \<Rightarrow>
          if j \<noteq> boc then got_rejected
          else (case st of
                  expired \<Rightarrow> got_expired
                | submitted \<Rightarrow> got_submitted
                | rejected \<Rightarrow> got_rejected)
      | job_completed j c u r t \<Rightarrow>
          if j \<noteq> boc then got_rejected else got_completed r)"

definition priv_getJobState ::
  "lib \<Rightarrow> TonhubConnector \<Rightarrow> string \<Rightarrow> string \<Rightarrow> world \<Rightarrow> (error + GotJobState) \<times> world" where
  "priv_getJobState L this appKey boc w =
     (let appk = toUrlSafe L appKey in
      case call_job this (command_get appk) w of
        (Inl e, w') \<Rightarrow> (Inl e, w')
      | (Inr res, w') \<Rightarrow> (Inr (jobStateOf boc res), w'))"

text \<open>
  The polling loop is \<open>while (true)\<close>: it ends only when the relay reports a terminal
  state or a call throws. A run that never ends is \<open>None\<close>.
\<close>

partial_function (option) priv_awaitJobState_loop ::
  "lib \<Rightarrow> TonhubConnector \<Rightarrow> string \<Rightarrow> string \<Rightarrow> world
     \<Rightarrow> ((error + AwaitedJob) \<times> world) option" where
  "priv_awaitJobState_loop L this appKey boc w =
     (case priv_getJobState L this appKey boc w of
        (Inl e, w') \<Rightarrow> Some (Inl e, w')
      | (Inr st, w') \<Rightarrow>
          (case st of
             got_expired \<Rightarrow> Some (Inr awaited_expired, w')
           | got_completed r \<Rightarrow> Some (Inr (awaited_completed r), w')
           | got_rejected \<Rightarrow> Some (Inr awaited_rejected, w')
           | got_submitted \<Rightarrow> priv_awaitJobState_loop L this appKey boc (delay 1000 w')))"

declare priv_awaitJobState_loop.simps [code]

text \<open>The retry wrapper around a callback that may not return.\<close>

fun backoff_partial_from ::
  "lib \<Rightarrow> nat \<Rightarrow> (world \<Rightarrow> ((error + 'a) \<times> world) option) \<Rightarrow> world
     \<Rightarrow> ((error + 'a) \<times> world) option" where
  "backoff_partial_from L 0 f w = f w"
| "backoff_partial_from L (Suc n) f w =
     (case f w of
        None \<Rightarrow> None
      | Some (Inr x, w') \<Rightarrow> Some (Inr x, w')
      | Some (Inl e, w') \<Rightarrow>
          if retryable e
          then backoff_partial_from L n f (delay (retryDelay L (maxFailureCount L - n)) w')
          else Some (Inl e, w'))"

definition backoff_partial ::
  "lib \<Rightarrow> (world \<Rightarrow> ((error + 'a) \<times> world) option) \<Rightarrow> world
     \<Rightarrow> ((error + 'a) \<times> world) option" where
  "backoff_partial L f w = backoff_partial_from L (maxFailureCount L) f w"

definition priv_awaitJobState ::
  "lib \<Rightarrow> TonhubConnector \<Rightarrow> string \<Rightarrow> string \<Rightarrow> world
     \<Rightarrow> ((error + AwaitedJob) \<times> world) option" where
  "priv_awaitJobState L this appKey boc w =
     backoff_partial L (priv_awaitJobState_loop L this appKey boc) w"

section \<open>Requests\<close>

text \<open>
  The request types. \<open>TonhubTransactionRequest\<close> has the fields of \<open>TonhubSignRequest\<close>
  and three more. The fields carry the prefix \<open>req_\<close>, since \<open>appPublicKey\<close> is also a
  field of the wallet configuration.
\<close>

record TonhubSignRequest =
  req_seed :: string
  req_appPublicKey :: string
  req_timeout :: int
  req_text :: "string option"
  req_payload :: "string option"

record TonhubTransactionRequest = TonhubSignRequest +
  req_to :: string
  req_value :: string
  req_stateInit :: "string option"

datatype TonhubTransactionResponse =
    tx_success string
  | tx_rejected
  | tx_expired
  | tx_invalid_session

datatype TonhubSignResponse =
    sign_success string
  | sign_rejected
  | sign_expired
  | sign_invalid_session

definition idFromSeed :: "lib \<Rightarrow> string \<Rightarrow> error + string" where
  "idFromSeed L seed =
     andThen (keyPairFromSeed L (fromBase64 L seed)) (\<lambda>(publicKey, secretKey).
     Inr (toUrlSafe L (toBase64 L publicKey)))"

text \<open>
  Signing a job and wrapping it: \<open>safeSign\<close> with the session key, then the package of
  signature, public key and job, serialised to base64.
\<close>

definition signedPackage :: "lib \<Rightarrow> string \<Rightarrow> Cell \<Rightarrow> error + string" where
  "signedPackage L seed jobCell =
     andThen (keyPairFromSeed L (fromBase64 L seed)) (\<lambda>(publicKey, secretKey).
     andThen (safeSign L jobCell secretKey) (\<lambda>signature.
     andThen (storeBuffer signature beginCell) (\<lambda>p1.
     andThen (storeBuffer publicKey p1) (\<lambda>p2.
     andThen (storeRef jobCell p2) (\<lambda>p3.
     Inr (toBase64 L (toBoc L (endCell p3))))))))"

definition optionalCell :: "lib \<Rightarrow> string option \<Rightarrow> error + Cell option" where
  "optionalCell L src =
     (case src of
        None \<Rightarrow> Inr None
      | Some p \<Rightarrow> andThen (fromBoc L (fromBase64 L p)) (\<lambda>c. Inr (Some c)))"

definition commentMsg :: "string option \<Rightarrow> string" where
  "commentMsg text = (case text of None \<Rightarrow> [] | Some t \<Rightarrow> t)"

definition requestTransaction_job ::
  "lib \<Rightarrow> TonhubWalletConfig \<Rightarrow> 'a TonhubTransactionRequest_scheme \<Rightarrow> int \<Rightarrow> error + Cell" where
  "requestTransaction_job L wlt request t =
     andThen (parseFriendly L (req_to request)) (\<lambda>addr.
     andThen (parseBigInt L (req_value request)) (\<lambda>amount.
     andThen (optionalCell L (req_payload request)) (\<lambda>data.
     andThen (optionalCell L (req_stateInit request)) (\<lambda>stateInit.
     let expires = (t + req_timeout request) div 1000 in
     andThen (storeBuffer (fromBase64 L (TonhubWalletConfig.appPublicKey wlt)) beginCell) (\<lambda>b1.
     andThen (storeUint expires 32 b1) (\<lambda>b2.
     andThen (storeCoins 0 b2) (\<lambda>b3.
     andThen (storeAddress addr beginCell) (\<lambda>i1.
     andThen (storeCoins amount i1) (\<lambda>i2.
     andThen (storeStringRefTail (commentMsg (req_text request)) i2) (\<lambda>i3.
     andThen (storeMaybeRef data i3) (\<lambda>i4.
     andThen (storeMaybeRef stateInit i4) (\<lambda>i5.
     andThen (storeRef (endCell i5) b3) (\<lambda>b4.
     Inr (endCell b4))))))))))))))"

definition requestTransaction_finish :: "AwaitedJob \<Rightarrow> TonhubTransactionResponse" where
  "requestTransaction_finish res =
     (case res of
        awaited_completed r \<Rightarrow> tx_success r
      | awaited_rejected \<Rightarrow> tx_rejected
      | awaited_expired \<Rightarrow> tx_expired)"

definition requestTransaction ::
  "lib \<Rightarrow> TonhubConnector \<Rightarrow> 'a TonhubTransactionRequest_scheme \<Rightarrow> world
     \<Rightarrow> ((error + TonhubTransactionResponse) \<times> world) option" where
  "requestTransaction L this request w =
     (case idFromSeed L (req_seed request) of
        Inl e \<Rightarrow> Some (Inl e, w)
      | Inr sessionId \<Rightarrow>
     (case backoff L (getSessionState L this sessionId) w of
        (Inl e, w1) \<Rightarrow> Some (Inl e, w1)
      | (Inr session, w1) \<Rightarrow>
     (case session of
        StateIniting n u c upd \<Rightarrow> Some (Inr tx_invalid_session, w1)
      | StateRevoked \<Rightarrow> Some (Inr tx_invalid_session, w1)
      | StateReady n u c upd wlt \<Rightarrow>
          if TonhubWalletConfig.appPublicKey wlt \<noteq> req_appPublicKey request
          then Some (Inr tx_invalid_session, w1)
          else
     (case andThen (requestTransaction_job L wlt request (clock w1))
             (signedPackage L (req_seed request)) of
        Inl e \<Rightarrow> Some (Inl e, w1)
      | Inr boc \<Rightarrow>
     (case backoff L (call_ok this (command_new boc)) w1 of
        (Inl e, w2) \<Rightarrow> Some (Inl e, w2)
      | (Inr ok, w2) \<Rightarrow>
     (case priv_awaitJobState L this (req_appPublicKey request) boc w2 of
        None \<Rightarrow> None
      | Some (Inl e, w3) \<Rightarrow> Some (Inl e, w3)
      | Some (Inr res, w3) \<Rightarrow> Some (Inr (requestTransaction_finish res), w3)))))))"

text \<open>The sign job: the comment cell and the payload cell under one child.\<close>

definition requestSign_data :: "lib \<Rightarrow> string option \<Rightarrow> error + Cell" where
  "requestSign_data L payload =
     (case payload of
        None \<Rightarrow> Inr Cell_EMPTY
      | Some p \<Rightarrow> fromBoc L (fromBase64 L p))"

definition requestSign_commentCell :: "string option \<Rightarrow> error + Cell" where
  "requestSign_commentCell text = comment (commentMsg text)"

definition requestSign_job ::
  "lib \<Rightarrow> TonhubWalletConfig \<Rightarrow> 'a TonhubSignRequest_scheme \<Rightarrow> int \<Rightarrow> error + Cell" where
  "requestSign_job L wlt request t =
     andThen (requestSign_data L (req_payload request)) (\<lambda>data.
     let expires = (t + req_timeout request) div 1000 in
     andThen (requestSign_commentCell (req_text request)) (\<lambda>commentCell.
     andThen (storeBuffer (fromBase64 L (TonhubWalletConfig.appPublicKey wlt)) beginCell) (\<lambda>b1.
     andThen (storeUint expires 32 b1) (\<lambda>b2.
     andThen (storeCoins 1 b2) (\<lambda>b3.
     andThen (storeRef commentCell beginCell) (\<lambda>i1.
     andThen (storeRef data i1) (\<lambda>i2.
     andThen (storeRef (endCell i2) b3) (\<lambda>b4.
     Inr (endCell b4)))))))))"

definition requestSign_finish ::
  "lib \<Rightarrow> TonhubWalletConfig \<Rightarrow> 'a TonhubSignRequest_scheme \<Rightarrow> AwaitedJob
     \<Rightarrow> error + TonhubSignResponse" where
  "requestSign_finish L wlt request res =
     (case res of
        awaited_completed r \<Rightarrow>
          andThen (fromBoc L (fromBase64 L r)) (\<lambda>cellRes.
          andThen (loadBuffer 64 cellRes) (\<lambda>resSignature.
          andThen (verifySignatureResponse L (toBase64 L resSignature)
                     (req_text request) (req_payload request) wlt) (\<lambda>correct.
          if correct then Inr (sign_success (toBase64 L resSignature))
          else Inr sign_rejected)))
      | awaited_rejected \<Rightarrow> Inr sign_rejected
      | awaited_expired \<Rightarrow> Inr sign_expired)"

definition requestSign ::
  "lib \<Rightarrow> TonhubConnector \<Rightarrow> 'a TonhubSignRequest_scheme \<Rightarrow> world
     \<Rightarrow> ((error + TonhubSignResponse) \<times> world) option" where
  "requestSign L this request w =
     (case idFromSeed L (req_seed request) of
        Inl e \<Rightarrow> Some (Inl e, w)
      | Inr sessionId \<Rightarrow>
     (case backoff L (getSessionState L this sessionId) w of
        (Inl e, w1) \<Rightarrow> Some (Inl e, w1)
      | (Inr session, w1) \<Rightarrow>
     (case session of
        StateIniting n u c upd \<Rightarrow> Some (Inr sign_invalid_session, w1)
      | StateRevoked \<Rightarrow> Some (Inr sign_invalid_session, w1)
      | StateReady n u c upd wlt \<Rightarrow>
          if TonhubWalletConfig.appPublicKey wlt \<noteq> req_appPublicKey request
          then Some (Inr sign_invalid_session, w1)
          else
     (case andThen (requestSign_job L wlt request (clock w1))
             (signedPackage L (req_seed request)) of
        Inl e \<Rightarrow> Some (Inl e, w1)
      | Inr boc \<Rightarrow>
     (case backoff L (call_ok this (command_new boc)) w1 of
        (Inl e, w2) \<Rightarrow> Some (Inl e, w2)
      | (Inr ok, w2) \<Rightarrow>
     (case priv_awaitJobState L this (req_appPublicKey request) boc w2 of
        None \<Rightarrow> None
      | Some (Inl e, w3) \<Rightarrow> Some (Inl e, w3)
      | Some (Inr res, w3) \<Rightarrow> Some (requestSign_finish L wlt request res, w3)))))))"

section \<open>The wallet-binding proof as the specification lays it out\<close>

text \<open>
  The proof cell in the specification's words: zero coins (four zero bits), the raw
  session-id bytes, the address (tag \<open>100\<close>, workchain, hash), a set flag bit, then a child
  cell with the endpoint bytes and a child cell with the app public key bytes.
  \<open>proof_fits\<close> says that the fields fit the 1023 bits of a cell and the workchain its
  eight bits.
\<close>

definition address_bits :: "Address \<Rightarrow> bool list" where
  "address_bits a =
     [True, False, False] @ uint_bits 8 (workChain a mod 256) @ buffer_bits (hash a)"

definition walletBindingProof :: "bytes \<Rightarrow> Address \<Rightarrow> bytes \<Rightarrow> bytes \<Rightarrow> Cell" where
  "walletBindingProof sessionBytes addr endpointBytes appKeyBytes =
     Cell (uint_bits 4 0 @ buffer_bits sessionBytes @ address_bits addr @ [True])
       [Cell (buffer_bits endpointBytes) [], Cell (buffer_bits appKeyBytes) []]"

definition proof_fits :: "bytes \<Rightarrow> Address \<Rightarrow> bytes \<Rightarrow> bytes \<Rightarrow> bool" where
  "proof_fits sessionBytes addr endpointBytes appKeyBytes =
     (8 * length sessionBytes + 8 * length (hash addr) + 16 \<le> 1023
      \<and> - 128 \<le> workChain addr \<and> workChain addr < 128
      \<and> 8 * length endpointBytes \<le> 1023
      \<and> 8 * length appKeyBytes \<le> 1023)"

text \<open>
  The sign-response verification payload in the specification's words: a node that
  references the comment cell and the payload cell only.
\<close>

definition signResponsePayload :: "Cell \<Rightarrow> Cell \<Rightarrow> Cell" where
  "signResponsePayload textCell payloadCell = Cell [] [textCell, payloadCell]"

section \<open>A small instance of the collaborators\<close>

text \<open>
  To run the definitions on concrete inputs the collaborators are instantiated with
  stand-ins that keep the interfaces and the failure cases of the real ones: the codec
  \<open>fromBase64\<close> reads the characters as bytes, a friendly address is 48 characters of the
  base64 alphabet and anything else throws, a wallet configuration is the 32 characters of
  its public key, a signature is 64 bytes (the key followed by a digest of the cell, here
  the number of bits in the tree of cells), and the verifier throws on a signature or key of
  the wrong size, as tweetnacl does.
\<close>

definition base64_alphabet :: string where
  "base64_alphabet =
     ''ABCDEFGHIJKLMNOPQRSTUVWXYZabcdefghijklmnopqrstuvwxyz0123456789+/-_''"

definition demo_parseFriendly :: "string \<Rightarrow> error + Address" where
  "demo_parseFriendly s =
     (if length s = 48 \<and> list_all (\<lambda>c. c \<in> set base64_alphabet) s
      then Inr \<lparr>workChain = 0, hash = utf8 (take 32 s)\<rparr>
      else Inl AddressError)"

definition demo_walletV4FromConfig :: "string \<Rightarrow> error + bytes \<times> Address" where
  "demo_walletV4FromConfig s =
     (if length s = 32 then Inr (utf8 s, \<lparr>workChain = 0, hash = utf8 s\<rparr>)
      else Inl DecodeError)"

fun cell_weight :: "Cell \<Rightarrow> nat" where
  "cell_weight (Cell bs rs) = length bs + sum_list (map cell_weight rs)"

definition demo_signature :: "Cell \<Rightarrow> bytes \<Rightarrow> bytes" where
  "demo_signature c key = key @ replicate 31 0 @ [of_nat (cell_weight c)]"

definition demo_safeSignVerify :: "Cell \<Rightarrow> bytes \<Rightarrow> bytes \<Rightarrow> error + bool" where
  "demo_safeSignVerify c sig key =
     (if length sig \<noteq> 64 \<or> length key \<noteq> 32 then Inl CryptoError
      else Inr (sig = demo_signature c key))"

definition demo_keyPairFromSeed :: "bytes \<Rightarrow> error + bytes \<times> bytes" where
  "demo_keyPairFromSeed sd = (if length sd = 32 then Inr (sd, sd) else Inl CryptoError)"

definition demo_fromBoc :: "bytes \<Rightarrow> error + Cell" where
  "demo_fromBoc bs = (if bs = [] then Inl DecodeError else Inr (Cell (buffer_bits bs) []))"

definition demo_parseBigInt :: "string \<Rightarrow> error + int" where
  "demo_parseBigInt s =
     (if s \<noteq> [] \<and> list_all (\<lambda>c. c \<in> set ''0123456789'') s
      then Inr (foldl (\<lambda>a c. 10 * a + (of_char c - 48)) 0 s)
      else Inl DecodeError)"

definition demo_lib :: lib where
  "demo_lib =
     \<lparr>fromBase64 = utf8,
      toBase64 = map (\<lambda>b. char_of (unat b)),
      toUrlSafe = (\<lambda>s. s),
      parseFriendly = demo_parseFriendly,
      walletV4FromConfig = demo_walletV4FromConfig,
      safeSignVerify = demo_safeSignVerify,
      safeSign = (\<lambda>c key. Inr (demo_signature c key)),
      keyPairFromSeed = demo_keyPairFromSeed,
      fromBoc = demo_fromBoc,
      toBoc = (\<lambda>c. bits_buffer (bits c)),
      parseBigInt = demo_parseBigInt,
      maxFailureCount = 5,
      retryDelay = (\<lambda>n. 250)\<rparr>"

text \<open>
  A relay that plays a script: the \<open>k\<close>-th session call gets the \<open>k\<close>-th session
  record, the \<open>k\<close>-th \<open>command_get\<close> the \<open>k\<close>-th job record, built from the blob of the
  latest \<open>command_new\<close>; past the end of a script the call throws. Every round trip takes
  \<open>d\<close> milliseconds.
\<close>

definition is_session_call :: "call \<Rightarrow> bool" where
  "is_session_call c =
     (case c of session_get i \<Rightarrow> True | session_wait i u \<Rightarrow> True | _ \<Rightarrow> False)"

definition is_job_call :: "call \<Rightarrow> bool" where
  "is_job_call c = (case c of command_get k \<Rightarrow> True | _ \<Rightarrow> False)"

definition last_job :: "call list \<Rightarrow> string" where
  "last_job cs = foldl (\<lambda>acc c. case c of command_new j \<Rightarrow> j | _ \<Rightarrow> acc) [] cs"

definition scripted :: "nat \<Rightarrow> SessionState list \<Rightarrow> (string \<Rightarrow> JobState) list \<Rightarrow> Transport" where
  "scripted d ss js =
     \<lparr>session_reply = (\<lambda>w c.
        case drop (length (filter is_session_call (calls w))) ss of
          [] \<Rightarrow> (d, Inl TransportError)
        | s # rest \<Rightarrow> (d, Inr s)),
      job_reply = (\<lambda>w c.
        case drop (length (filter is_job_call (calls w))) js of
          [] \<Rightarrow> (d, Inl TransportError)
        | j # rest \<Rightarrow> (d, Inr (j (last_job (calls w))))),
      ok_reply = (\<lambda>w c. (d, Inr True))\<rparr>"

definition world0 :: world where
  "world0 = \<lparr>clock = 0, calls = []\<rparr>"

definition demo_address :: string where
  "demo_address = ''ABCDEFGHIJKLMNOPQRSTUVWXYZabcdefABCDEFGHIJKLMNOP''"

definition demo_session :: string where
  "demo_session = ''sessionsessionsessionsessionsess''"

definition demo_config :: TonhubWalletConfig where
  "demo_config =
     \<lparr>address = demo_address,
      endpoint = ''connect.tonhubapi.com'',
      walletType = ''org.ton.wallets.v4'',
      walletConfig = ''ABCDEFGHIJKLMNOPQRSTUVWXYZabcdef'',
      walletSig = ''ABCDEFGHIJKLMNOPQRSTUVWXYZabcdef'' @ replicate 31 (CHR 0x00) @ [CHR 0xB8],
      appPublicKey = demo_session\<rparr>"

definition mainnet_connector :: "Transport \<Rightarrow> TonhubConnector" where
  "mainnet_connector t = \<lparr>network = mainnet, transport = t\<rparr>"

definition demo_ready :: "TonhubWalletConfig \<Rightarrow> bool \<Rightarrow> bool \<Rightarrow> SessionState" where
  "demo_ready cfg tn rv = ready ''App'' ''https://app.example'' cfg tn 1 2 rv"

definition demo_initing :: "bool \<Rightarrow> SessionState" where
  "demo_initing tn = initing ''App'' ''https://app.example'' tn 1 2 False"

definition bad_address :: string where
  "bad_address = ''!BCDEFGHIJKLMNOPQRSTUVWXYZabcdefABCDEFGHIJKLMNOP''"

definition other_address :: string where
  "other_address = ''BBCDEFGHIJKLMNOPQRSTUVWXYZabcdefABCDEFGHIJKLMNOP''"

definition forged_config :: TonhubWalletConfig where
  "forged_config =
     demo_config\<lparr>walletSig := ''ABCDEFGHIJKLMNOPQRSTUVWXYZabcdef'' @ replicate 32 (CHR 0x00)\<rparr>"

definition always_initing :: "nat \<Rightarrow> Transport" where
  "always_initing d =
     \<lparr>session_reply = (\<lambda>w c. (d, Inr (demo_initing False))),
      job_reply = (\<lambda>w c. (d, Inl TransportError)),
      ok_reply = (\<lambda>w c. (d, Inr True))\<rparr>"

definition demo_sign_request :: TonhubSignRequest where
  "demo_sign_request =
     \<lparr>req_seed = demo_session, req_appPublicKey = demo_session, req_timeout = 60000,
      req_text = Some ''hi'', req_payload = None\<rparr>"

definition demo_transaction_request :: TonhubTransactionRequest where
  "demo_transaction_request =
     \<lparr>req_seed = demo_session, req_appPublicKey = demo_session, req_timeout = 60000,
      req_text = Some ''hi'', req_payload = None,
      req_to = demo_address, req_value = ''1000'', req_stateInit = None\<rparr>"

definition demo_response :: "char \<Rightarrow> string" where
  "demo_response digest =
     ''ABCDEFGHIJKLMNOPQRSTUVWXYZabcdef'' @ replicate 31 (CHR 0x00) @ [digest]"

definition demo_relay :: "string \<Rightarrow> Transport" where
  "demo_relay res =
     scripted 7 [demo_ready demo_config False False] [\<lambda>j. job_completed j 1 2 res 3]"

definition demo_boc :: string where
  "demo_boc = demo_session @ replicate 31 (CHR 0x00) @ [CHR 0x5C] @ demo_session"

definition demo_world :: "int \<Rightarrow> call list \<Rightarrow> world" where
  "demo_world t cs = \<lparr>clock = t, calls = cs\<rparr>"

definition demo_key :: bytes where
  "demo_key = utf8 ''ABCDEFGHIJKLMNOPQRSTUVWXYZabcdef''"

definition demo_parsed_address :: Address where
  "demo_parsed_address = \<lparr>workChain = 0, hash = utf8 (take 32 demo_address)\<rparr>"

definition demo_text_cell :: Cell where
  "demo_text_cell = Cell (replicate 32 False @ buffer_bits (utf8 ''hi'')) []"

section \<open>Basic facts\<close>

lemma andThen_Inr [simp]: "andThen (Inr x) f = f x"
  by (simp add: andThen_def)

lemma andThen_Inl [simp]: "andThen (Inl e) f = Inl e"
  by (simp add: andThen_def)

lemma andThen_eq_Inr: "andThen m f = Inr y \<longleftrightarrow> (\<exists>x. m = Inr x \<and> f x = Inr y)"
  by (cases m) simp_all

lemma backoff_from_success: "f w = (Inr x, w') \<Longrightarrow> backoff_from L n f w = (Inr x, w')"
  by (cases n) simp_all

lemma backoff_success: "f w = (Inr x, w') \<Longrightarrow> backoff L f w = (Inr x, w')"
  by (simp add: backoff_def backoff_from_success)

lemma backoff_partial_total:
  "backoff_partial L (\<lambda>v. Some (f v)) w = Some (backoff L f w)"
proof -
  have "backoff_partial_from L n (\<lambda>v. Some (f v)) w = Some (backoff_from L n f w)" for n
    by (induction n arbitrary: w) (auto split: prod.splits sum.splits)
  then show ?thesis
    by (simp add: backoff_partial_def backoff_def)
qed

lemma fetch_session_reply:
  "session_reply (transport this) w c = (d, Inr ex) \<Longrightarrow>
   fetch_session L this sid c w = (ensureSessionStateCorrect L this sid ex, after_call w c d)"
  by (simp add: fetch_session_def call_session_def)

lemma length_uint_bits [simp]: "length (uint_bits n v) = n"
  by (induction n arbitrary: v) simp_all

lemma length_byte_bits [simp]: "length (byte_bits w) = 8"
  by (simp add: byte_bits_def)

lemma length_buffer_bits [simp]: "length (buffer_bits bs) = 8 * length bs"
  by (induction bs) (simp_all add: buffer_bits_def)

lemma storeBits_fresh:
  "length xs \<le> 1023 \<Longrightarrow>
   storeBits bs \<lparr>b_bits = xs, b_refs = rs\<rparr> =
     (if length xs + length bs \<le> 1023 then Inr \<lparr>b_bits = xs @ bs, b_refs = rs\<rparr>
      else Inl BuilderError)"
  by (auto simp: storeBits_def availableBits_def)

lemma length_address_bits [simp]: "length (address_bits a) = 11 + 8 * length (hash a)"
  by (simp add: address_bits_def)

lemma uint_bits_2_2: "uint_bits 2 2 = [True, False]"
  by code_simp

lemma uint_bits_1_0: "uint_bits 1 0 = [False]"
  by code_simp

lemma storeAddress_eq:
  "length xs \<le> 1023 \<Longrightarrow>
   storeAddress a \<lparr>b_bits = xs, b_refs = rs\<rparr> =
     (if - 128 \<le> workChain a \<and> workChain a < 128
         \<and> length xs + 11 + 8 * length (hash a) \<le> 1023
      then Inr \<lparr>b_bits = xs @ address_bits a, b_refs = rs\<rparr>
      else Inl BuilderError)"
  by (auto simp: storeAddress_def storeUint_def storeInt_def storeBuffer_def storeBits_fresh
        uint_bits_2_2 uint_bits_1_0 address_bits_def)

lemma toSign_eq:
  "walletConfig_toSign L session addr config =
     (if proof_fits (fromBase64 L session) addr (utf8 (endpoint config))
           (fromBase64 L (appPublicKey config))
      then Inr (walletBindingProof (fromBase64 L session) addr (utf8 (endpoint config))
                 (fromBase64 L (appPublicKey config)))
      else Inl BuilderError)"
  by (auto simp: walletConfig_toSign_def storeCoins_def storeUint_def storeBuffer_def
        storeBit_def storeRef_def beginCell_def endCell_def storeBits_fresh storeAddress_eq
        proof_fits_def walletBindingProof_def)

lemma verifyWalletConfig_accepts:
  "verifyWalletConfig L session config = Inr True \<longleftrightarrow>
     (\<exists>addr publicKey.
        parseFriendly L (address config) = Inr addr
      \<and> extractPublicKeyAndAddress L (walletType config) (walletConfig config)
          = Inr (Some (publicKey, addr))
      \<and> proof_fits (fromBase64 L session) addr (utf8 (endpoint config))
          (fromBase64 L (appPublicKey config))
      \<and> safeSignVerify L
          (walletBindingProof (fromBase64 L session) addr (utf8 (endpoint config))
             (fromBase64 L (appPublicKey config)))
          (fromBase64 L (walletSig config)) publicKey = Inr True)"
  by (auto simp: verifyWalletConfig_def andThen_eq_Inr toSign_eq split: option.splits if_splits)


lemma verifyWalletConfig_verdict:
  assumes "parseFriendly L (address config) = Inr addr"
    and "extractPublicKeyAndAddress L (walletType config) (walletConfig config)
          = Inr (Some (publicKey, addr))"
    and "proof_fits (fromBase64 L session) addr (utf8 (endpoint config))
          (fromBase64 L (appPublicKey config))"
  shows "verifyWalletConfig L session config =
         safeSignVerify L
           (walletBindingProof (fromBase64 L session) addr (utf8 (endpoint config))
             (fromBase64 L (appPublicKey config)))
           (fromBase64 L (walletSig config)) publicKey"
  using assms by (simp add: verifyWalletConfig_def toSign_eq)

lemma verifyWalletConfig_parse_error:
  "parseFriendly L (address config) = Inl e \<Longrightarrow> verifyWalletConfig L session config = Inl e"
  by (simp add: verifyWalletConfig_def)

lemma verifyWalletConfig_other_address:
  assumes "verifyWalletConfig L session config = Inr True"
    and "walletType config' = walletType config"
    and "walletConfig config' = walletConfig config"
    and "parseFriendly L (address config') = Inr addr'"
    and "parseFriendly L (address config) \<noteq> Inr addr'"
  shows "verifyWalletConfig L session config' = Inr False"
proof -
  from assms(1) obtain addr publicKey where
    a: "parseFriendly L (address config) = Inr addr"
    and x: "extractPublicKeyAndAddress L (walletType config) (walletConfig config)
          = Inr (Some (publicKey, addr))"
    unfolding verifyWalletConfig_accepts by blast
  from a assms(5) have "addr \<noteq> addr'" by auto
  with x assms(2,3,4) show ?thesis
    by (simp add: verifyWalletConfig_def)
qed

lemma verifyWalletConfig_unknown_type:
  "parseFriendly L (address config) = Inr addr \<Longrightarrow> walletType config \<noteq> ''org.ton.wallets.v4''
   \<Longrightarrow> verifyWalletConfig L session config = Inr False"
  by (simp add: verifyWalletConfig_def extractPublicKeyAndAddress_def)

lemma verifyWalletConfig_decode_error:
  "parseFriendly L (address config) = Inr addr \<Longrightarrow> walletType config = ''org.ton.wallets.v4''
   \<Longrightarrow> walletV4FromConfig L (walletConfig config) = Inl e
   \<Longrightarrow> verifyWalletConfig L session config = Inl e"
  by (simp add: verifyWalletConfig_def extractPublicKeyAndAddress_def)

lemma integrity_error:
  assumes "is_ready ex" and "\<not> revoked ex" and "testnet ex = is_testnet this"
    and "verifyWalletConfig L sid (wallet ex) = Inr False"
  shows "ensureSessionStateCorrect L this sid ex = Inl IntegrityError"
  using assms by (cases ex) (simp_all add: ensureSessionStateCorrect_def)

lemma backoff_fatal:
  "f w = (Inl e, w') \<Longrightarrow> \<not> retryable e \<Longrightarrow> backoff L f w = (Inl e, w')"
  by (cases "maxFailureCount L") (simp_all add: backoff_def)

lemma comment_returns: "\<exists>c. comment src = Inr c"
proof -
  have fresh: "storeUint 0 32 beginCell = Inr \<lparr>b_bits = uint_bits 32 0, b_refs = []\<rparr>"
    by (simp add: storeUint_def beginCell_def storeBits_fresh)
  have "\<exists>b. writeBuffer bs \<lparr>b_bits = uint_bits 32 0, b_refs = []\<rparr> = Inr b" for bs
    by (auto simp: writeBuffer_def Let_def availableBits_def storeBuffer_def storeBits_fresh
          storeRef_def min_def)
  then show ?thesis
    by (auto simp: comment_def fresh storeStringTail_def andThen_eq_Inr)
qed

lemma comment_cells_agree:
  "t \<noteq> [] \<Longrightarrow> requestSign_commentCell (Some t) = signResponse_textCell (Some t)"
  by (simp add: requestSign_commentCell_def signResponse_textCell_def commentMsg_def)

lemma waitForSessionState_initing:
  assumes "session_reply (transport this) v (session_wait sid lu)
           = (d, Inr (initing n u (is_testnet this) c upd r))"
  shows "waitForSessionState L this sid lu v
         = (Inr (StateIniting n u c upd), after_call v (session_wait sid lu) d)"
  unfolding waitForSessionState_def
  by (rule backoff_success)
     (simp add: fetch_session_reply [OF assms] ensureSessionStateCorrect_def)

declare awaitSessionReady_loop.simps [simp del]

lemma awaitSessionReady_loop_expires:
  assumes polls: "\<forall>v. \<exists>n u c upd r d.
      session_reply (transport this) v (session_wait sid lu)
        = (d, Inr (initing n u (is_testnet this) c upd r)) \<and> d \<le> R"
  shows "fst (awaitSessionReady_loop L this sid lu expires w) = Inr AwaitedExpired
       \<and> (expires \<le> clock w \<longrightarrow> snd (awaitSessionReady_loop L this sid lu expires w) = w)
       \<and> (clock w < expires \<longrightarrow>
            clock (snd (awaitSessionReady_loop L this sid lu expires w))
              < expires + int R + 1000)
       \<and> clock w \<le> clock (snd (awaitSessionReady_loop L this sid lu expires w))"
  using polls
proof (induction L this sid lu expires w rule: awaitSessionReady_loop.induct)
  case (1 L this sessionId lastUpdated expires w)
  show ?case
  proof (cases "clock w < expires")
    case False
    then show ?thesis
      by (simp add: awaitSessionReady_loop.simps [of L this sessionId lastUpdated expires w])
  next
    case True
    from "1.prems" obtain n u c upd r d where
      reply: "session_reply (transport this) w (session_wait sessionId lastUpdated)
        = (d, Inr (initing n u (is_testnet this) c upd r))" and d: "d \<le> R"
      by blast
    let ?w1 = "after_call w (session_wait sessionId lastUpdated) d"
    let ?w2 = "delay 1000 ?w1"
    have wait: "waitForSessionState L this sessionId lastUpdated w
                = (Inr (StateIniting n u c upd), ?w1)"
      by (rule waitForSessionState_initing [OF reply])
    have unfold: "awaitSessionReady_loop L this sessionId lastUpdated expires w
                  = awaitSessionReady_loop L this sessionId lastUpdated expires ?w2"
      using True wait
      by (simp add: awaitSessionReady_loop.simps [of L this sessionId lastUpdated expires w])
    have c2: "clock ?w2 = clock w + int d + 1000"
      by (simp add: delay_def after_call_def)
    have IH: "fst (awaitSessionReady_loop L this sessionId lastUpdated expires ?w2)
                = Inr AwaitedExpired
       \<and> (expires \<le> clock ?w2 \<longrightarrow>
            snd (awaitSessionReady_loop L this sessionId lastUpdated expires ?w2) = ?w2)
       \<and> (clock ?w2 < expires \<longrightarrow>
            clock (snd (awaitSessionReady_loop L this sessionId lastUpdated expires ?w2))
              < expires + int R + 1000)
       \<and> clock ?w2
           \<le> clock (snd (awaitSessionReady_loop L this sessionId lastUpdated expires ?w2))"
      by (rule "1.IH" [OF True wait [symmetric] refl refl "1.prems"])
    have bound: "clock (snd (awaitSessionReady_loop L this sessionId lastUpdated expires ?w2))
              < expires + int R + 1000"
    proof (cases "clock ?w2 < expires")
      case True
      with IH show ?thesis by blast
    next
      case False
      with IH have "snd (awaitSessionReady_loop L this sessionId lastUpdated expires ?w2) = ?w2"
        by simp
      with c2 \<open>clock w < expires\<close> d show ?thesis by simp
    qed
    from IH c2 have mono: "clock w
        \<le> clock (snd (awaitSessionReady_loop L this sessionId lastUpdated expires ?w2))"
      by linarith
    from IH bound mono True show ?thesis
      unfolding unfold by simp
  qed
qed

lemma backoff_from_calls:
  assumes "\<And>v. \<exists>cs. calls (snd (f v)) = calls v @ cs \<and> (\<forall>c\<in>set cs. P c)"
  shows "\<exists>cs. calls (snd (backoff_from L n f w)) = calls w @ cs \<and> (\<forall>c\<in>set cs. P c)"
proof (induction n arbitrary: w)
  case 0
  show ?case using assms [of w] by simp
next
  case (Suc n)
  obtain r w' where fw: "f w = (r, w')" by (cases "f w")
  from assms [of w] fw obtain cs where cs: "calls w' = calls w @ cs" "\<forall>c\<in>set cs. P c"
    by auto
  show ?case
  proof (cases r)
    case (Inr x)
    with fw cs show ?thesis by simp
  next
    case (Inl e)
    let ?v = "delay (retryDelay L (maxFailureCount L - n)) w'"
    from Suc.IH [of ?v] obtain ds where
      ds: "calls (snd (backoff_from L n f ?v)) = calls ?v @ ds" "\<forall>c\<in>set ds. P c"
      by blast
    have "calls ?v = calls w'" by (simp add: delay_def)
    show ?thesis
    proof (cases "retryable e")
      case True
      with ds cs fw Inl \<open>calls ?v = calls w'\<close>
      have "calls (snd (backoff_from L (Suc n) f w)) = calls w @ (cs @ ds)"
        by simp
      moreover from cs ds have "\<forall>c\<in>set (cs @ ds). P c" by auto
      ultimately show ?thesis by blast
    next
      case False
      with fw cs Inl show ?thesis by simp
    qed
  qed
qed

lemma getSessionState_calls:
  "\<exists>cs. calls (snd (getSessionState L this sid w)) = calls w @ cs
        \<and> (\<forall>c\<in>set cs. c = session_get sid)"
  unfolding getSessionState_def backoff_def
  by (rule backoff_from_calls)
     (auto simp: fetch_session_def call_session_def after_call_def split: prod.splits sum.splits)

lemma backoff_getSessionState_calls:
  "\<exists>cs. calls (snd (backoff L (getSessionState L this sid) w)) = calls w @ cs
        \<and> (\<forall>c\<in>set cs. c = session_get sid)"
  unfolding backoff_def
  by (rule backoff_from_calls) (rule getSessionState_calls)

lemma requestSign_completed:
  assumes "idFromSeed L (req_seed request) = Inr sid"
    and "backoff L (getSessionState L this sid) w = (Inr (StateReady n u c upd wlt), w1)"
    and "TonhubWalletConfig.appPublicKey wlt = req_appPublicKey request"
    and "andThen (requestSign_job L wlt request (clock w1))
           (signedPackage L (req_seed request)) = Inr boc"
    and "backoff L (call_ok this (command_new boc)) w1 = (Inr ok, w2)"
    and "priv_awaitJobState L this (req_appPublicKey request) boc w2
           = Some (Inr res, w3)"
  shows "requestSign L this request w = Some (requestSign_finish L wlt request res, w3)"
  using assms by (simp add: requestSign_def)

lemma requestSign_finish_success:
  "requestSign_finish L wlt request res = Inr (sign_success s) \<Longrightarrow>
   \<exists>r cellRes resSignature. res = awaited_completed r
      \<and> fromBoc L (fromBase64 L r) = Inr cellRes
      \<and> loadBuffer 64 cellRes = Inr resSignature
      \<and> s = toBase64 L resSignature
      \<and> verifySignatureResponse L s (req_text request) (req_payload request) wlt = Inr True"
  by (cases res) (auto simp: requestSign_finish_def andThen_eq_Inr split: if_splits)

lemma requestSign_success:
  assumes "requestSign L this request w = Some (Inr (sign_success s), w')"
  shows "\<exists>sid n u c upd wlt w1 boc w2 r cellRes resSignature.
      idFromSeed L (req_seed request) = Inr sid
    \<and> backoff L (getSessionState L this sid) w = (Inr (StateReady n u c upd wlt), w1)
    \<and> priv_awaitJobState L this (req_appPublicKey request) boc w2
         = Some (Inr (awaited_completed r), w')
    \<and> fromBoc L (fromBase64 L r) = Inr cellRes
    \<and> loadBuffer 64 cellRes = Inr resSignature
    \<and> s = toBase64 L resSignature
    \<and> verifySignatureResponse L s (req_text request) (req_payload request) wlt = Inr True"
  using assms
  by (auto simp: requestSign_def
        split: sum.splits prod.splits TonhubSessionState.splits if_splits option.splits
        dest!: requestSign_finish_success)
     blast

lemma verifySignatureResponse_accepts:
  "verifySignatureResponse L sg text payload config = Inr True \<longleftrightarrow>
     (\<exists>addr publicKey textCell payloadCell.
        parseFriendly L (address config) = Inr addr
      \<and> extractPublicKeyAndAddress L (walletType config) (walletConfig config)
          = Inr (Some (publicKey, addr))
      \<and> (case text of
            None \<Rightarrow> Inr (Cell [] [])
          | Some t \<Rightarrow> if t = [] then Inr (Cell [] []) else comment t) = Inr textCell
      \<and> (case payload of
            None \<Rightarrow> Inr (Cell [] [])
          | Some p \<Rightarrow> fromBoc L (fromBase64 L p)) = Inr payloadCell
      \<and> safeSignVerify L (signResponsePayload textCell payloadCell)
          (fromBase64 L sg) publicKey = Inr True)"
proof -
  have tc: "signResponse_textCell text =
            (case text of
               None \<Rightarrow> Inr (Cell [] [])
             | Some t \<Rightarrow> if t = [] then Inr (Cell [] []) else comment t)"
    by (cases "text") (simp_all add: signResponse_textCell_def Cell_EMPTY_def)
  have pc: "signResponse_payloadCell L payload =
            (case payload of
               None \<Rightarrow> Inr (Cell [] [])
             | Some p \<Rightarrow> fromBoc L (fromBase64 L p))"
    by (cases payload) (simp_all add: signResponse_payloadCell_def Cell_EMPTY_def)
  show ?thesis
    unfolding verifySignatureResponse_def tc [symmetric] pc [symmetric]
    by (cases "parseFriendly L (address config)";
        cases "extractPublicKeyAndAddress L (walletType config) (walletConfig config)";
        cases "signResponse_textCell text"; cases "signResponse_payloadCell L payload")
       (auto simp: storeRef_def beginCell_def endCell_def signResponsePayload_def
          split: option.splits)
qed

lemma requestSign_finish_cases:
  "requestSign_finish L wlt request (awaited_completed r) =
     (case fromBoc L (fromBase64 L r) of
        Inl e \<Rightarrow> Inl e
      | Inr cellRes \<Rightarrow>
          (case loadBuffer 64 cellRes of
             Inl e \<Rightarrow> Inl e
           | Inr resSignature \<Rightarrow>
               (case verifySignatureResponse L (toBase64 L resSignature)
                       (req_text request) (req_payload request) wlt of
                  Inl e \<Rightarrow> Inl e
                | Inr correct \<Rightarrow>
                    if correct then Inr (sign_success (toBase64 L resSignature))
                    else Inr sign_rejected)))"
  by (simp add: requestSign_finish_def andThen_def)

lemma loadBuffer_short: "length (bits c) < 512 \<Longrightarrow> loadBuffer 64 c = Inl BuilderError"
  by (simp add: loadBuffer_def)

section \<open>Session normalisation\<close>

text \<open>
  C3. A relay session record, \<open>initing\<close> or \<open>ready\<close>, whose testnet flag differs from the
  connector's network is normalised to \<open>revoked\<close>, and so is a \<open>ready\<close> record flagged
  revoked: by \<open>ensureSessionStateCorrect\<close>, and so by \<open>getSessionState\<close> and
  \<open>waitForSessionState\<close> when the relay answers the call with that record.
\<close>

theorem mismatch_is_revoked:
  assumes "(is_initing ex \<or> is_ready ex) \<and> testnet ex \<noteq> is_testnet this
           \<or> is_ready ex \<and> revoked ex"
  shows "ensureSessionStateCorrect L this sid ex = Inr StateRevoked
    \<and> (session_reply (transport this) w (session_get sid) = (d, Inr ex) \<longrightarrow>
         getSessionState L this sid w = (Inr StateRevoked, after_call w (session_get sid) d))
    \<and> (session_reply (transport this) w (session_wait sid lu) = (d, Inr ex) \<longrightarrow>
         waitForSessionState L this sid lu w
           = (Inr StateRevoked, after_call w (session_wait sid lu) d))"
proof -
  have norm: "ensureSessionStateCorrect L this sid ex = Inr StateRevoked"
    using assms by (cases ex) (auto simp: ensureSessionStateCorrect_def)
  show ?thesis
    using norm
    by (auto simp: getSessionState_def waitForSessionState_def fetch_session_reply
          intro!: backoff_success)
qed

theorem mismatch_is_revoked_witness:
  "is_ready (demo_ready demo_config True False)
   \<and> testnet (demo_ready demo_config True False)
       \<noteq> is_testnet (mainnet_connector (scripted 7 [demo_ready demo_config True False] []))
   \<and> session_reply (transport (mainnet_connector (scripted 7 [demo_ready demo_config True False] [])))
        world0 (session_get demo_session) = (7, Inr (demo_ready demo_config True False))
   \<and> getSessionState demo_lib
        (mainnet_connector (scripted 7 [demo_ready demo_config True False] []))
        demo_session world0
      = (Inr StateRevoked, \<lparr>clock = 7, calls = [session_get demo_session]\<rparr>)"
proof -
  let ?ex = "demo_ready demo_config True False"
  let ?conn = "mainnet_connector (scripted 7 [?ex] [])"
  have h: "is_ready ?ex \<and> testnet ?ex \<noteq> is_testnet ?conn"
    by (simp add: is_testnet_def mainnet_connector_def demo_ready_def)
  then have h': "(is_initing ?ex \<or> is_ready ?ex) \<and> testnet ?ex \<noteq> is_testnet ?conn
           \<or> is_ready ?ex \<and> revoked ?ex"
    by simp
  have r: "session_reply (transport ?conn) world0 (session_get demo_session) = (7, Inr ?ex)"
    by (simp add: mainnet_connector_def scripted_def world0_def)
  have a: "after_call world0 (session_get demo_session) 7
           = \<lparr>clock = 7, calls = [session_get demo_session]\<rparr>"
    by (simp add: after_call_def world0_def)
  from mismatch_is_revoked [OF h', of demo_lib demo_session world0 7] r a h
  show ?thesis by simp
qed

text \<open>
  C10. A relay session record that is neither \<open>initing\<close> nor \<open>ready\<close> (the \<open>not_found\<close>
  record) is normalised to \<open>revoked\<close>; the result type of \<open>getSessionState\<close> and
  \<open>waitForSessionState\<close> has no \<open>not_found\<close> value.
\<close>

theorem not_found_is_revoked:
  assumes "\<not> is_initing ex" and "\<not> is_ready ex"
  shows "ensureSessionStateCorrect L this sid ex = Inr StateRevoked
    \<and> (session_reply (transport this) w (session_get sid) = (d, Inr ex) \<longrightarrow>
         getSessionState L this sid w = (Inr StateRevoked, after_call w (session_get sid) d))
    \<and> (session_reply (transport this) w (session_wait sid lu) = (d, Inr ex) \<longrightarrow>
         waitForSessionState L this sid lu w
           = (Inr StateRevoked, after_call w (session_wait sid lu) d))"
proof -
  have norm: "ensureSessionStateCorrect L this sid ex = Inr StateRevoked"
    using assms by (cases ex) (simp_all add: ensureSessionStateCorrect_def)
  show ?thesis
    using norm
    by (auto simp: getSessionState_def waitForSessionState_def fetch_session_reply
          intro!: backoff_success)
qed

theorem not_found_is_revoked_witness:
  "\<not> is_initing not_found \<and> \<not> is_ready not_found
   \<and> session_reply (transport (mainnet_connector (scripted 7 [not_found] [])))
        world0 (session_wait demo_session None) = (7, Inr not_found)
   \<and> waitForSessionState demo_lib (mainnet_connector (scripted 7 [not_found] []))
        demo_session None world0
      = (Inr StateRevoked, \<lparr>clock = 7, calls = [session_wait demo_session None]\<rparr>)"
proof -
  let ?conn = "mainnet_connector (scripted 7 [not_found] [])"
  have h1: "\<not> is_initing not_found" and h2: "\<not> is_ready not_found"
    by simp_all
  have r: "session_reply (transport ?conn) world0 (session_wait demo_session None)
           = (7, Inr not_found)"
    by (simp add: mainnet_connector_def scripted_def world0_def)
  have a: "after_call world0 (session_wait demo_session None) 7
           = \<lparr>clock = 7, calls = [session_wait demo_session None]\<rparr>"
    by (simp add: after_call_def world0_def)
  from not_found_is_revoked [OF h1 h2, of demo_lib ?conn demo_session world0 7 None] r a
  show ?thesis by simp
qed

section \<open>Job normalisation\<close>

text \<open>
  C4. The job-state normalisation maps the relay's \<open>empty\<close> record to \<open>expired\<close>, and
  every other record whose job blob differs from the submitted blob to \<open>rejected\<close>,
  whatever state the relay reports, \<open>completed\<close> with a result included.
\<close>

theorem foreign_job_is_rejected:
  assumes "job_reply (transport this) w (command_get (toUrlSafe L appKey)) = (d, Inr res)"
  shows "(is_job_empty res \<longrightarrow>
            priv_getJobState L this appKey boc w
              = (Inr got_expired, after_call w (command_get (toUrlSafe L appKey)) d))
    \<and> (\<not> is_job_empty res \<and> job res \<noteq> boc \<longrightarrow>
            priv_getJobState L this appKey boc w
              = (Inr got_rejected, after_call w (command_get (toUrlSafe L appKey)) d))"
  using assms
  by (cases res) (simp_all add: priv_getJobState_def call_job_def jobStateOf_def)

theorem foreign_job_is_rejected_witness:
  "job_reply (transport (mainnet_connector
       (scripted 7 [] [\<lambda>j. job_completed ''other'' 1 2 ''result'' 3])))
     world0 (command_get (toUrlSafe demo_lib demo_session))
     = (7, Inr (job_completed ''other'' 1 2 ''result'' 3))
   \<and> \<not> is_job_empty (job_completed ''other'' 1 2 ''result'' 3)
   \<and> job (job_completed ''other'' 1 2 ''result'' 3) \<noteq> ''mine''
   \<and> priv_getJobState demo_lib
        (mainnet_connector (scripted 7 [] [\<lambda>j. job_completed ''other'' 1 2 ''result'' 3]))
        demo_session ''mine'' world0
      = (Inr got_rejected, \<lparr>clock = 7, calls = [command_get demo_session]\<rparr>)"
proof -
  let ?res = "job_completed ''other'' 1 2 ''result'' 3"
  let ?conn = "mainnet_connector (scripted 7 [] [\<lambda>j. ?res])"
  have r: "job_reply (transport ?conn) world0 (command_get (toUrlSafe demo_lib demo_session))
           = (7, Inr ?res)"
    by (simp add: mainnet_connector_def scripted_def world0_def)
  have n: "\<not> is_job_empty ?res \<and> job ?res \<noteq> ''mine''"
    by simp
  have a: "after_call world0 (command_get (toUrlSafe demo_lib demo_session)) 7
           = \<lparr>clock = 7, calls = [command_get demo_session]\<rparr>"
    by (simp add: after_call_def world0_def demo_lib_def)
  from foreign_job_is_rejected [OF r, where boc = "''mine''"] n a r
  show ?thesis by simp
qed

section \<open>Wallet configuration\<close>

text \<open>
  C1, as amended. \<open>verifyWalletConfig\<close> returns true if and only if the address parses,
  the key and address extracted from \<open>walletType\<close> and \<open>walletConfig\<close> exist with the
  extracted address equal to the parsed one, the wallet-binding proof (zero coins, session
  bytes, address, set flag bit, a child cell with the endpoint bytes, a child cell with the
  app public key bytes) fits a cell, and \<open>safeSignVerify\<close> accepts \<open>walletSig\<close> over it
  under the extracted key. Whenever the first three hold the result is the verdict of
  \<open>safeSignVerify\<close>, so a change to \<open>walletSig\<close>, \<open>endpoint\<close> or \<open>appPublicKey\<close> gives
  false exactly when the library rejects the changed signature or proof. A change to
  \<open>address\<close> alone gives false when the changed string parses to another address, and
  the call throws when it no longer parses.
\<close>

theorem verifyWalletConfig_true_iff:
  "(verifyWalletConfig L session config = Inr True \<longleftrightarrow>
     (\<exists>addr publicKey.
        parseFriendly L (address config) = Inr addr
      \<and> extractPublicKeyAndAddress L (walletType config) (walletConfig config)
          = Inr (Some (publicKey, addr))
      \<and> proof_fits (fromBase64 L session) addr (utf8 (endpoint config))
          (fromBase64 L (appPublicKey config))
      \<and> safeSignVerify L
          (walletBindingProof (fromBase64 L session) addr (utf8 (endpoint config))
             (fromBase64 L (appPublicKey config)))
          (fromBase64 L (walletSig config)) publicKey = Inr True))
   \<and> (parseFriendly L (address config) = Inr addr
      \<and> extractPublicKeyAndAddress L (walletType config) (walletConfig config)
          = Inr (Some (publicKey, addr))
      \<and> proof_fits (fromBase64 L session) addr (utf8 (endpoint config))
          (fromBase64 L (appPublicKey config))
      \<longrightarrow> verifyWalletConfig L session config =
          safeSignVerify L
            (walletBindingProof (fromBase64 L session) addr (utf8 (endpoint config))
              (fromBase64 L (appPublicKey config)))
            (fromBase64 L (walletSig config)) publicKey)
   \<and> (verifyWalletConfig L session config = Inr True
      \<and> walletType config' = walletType config
      \<and> walletConfig config' = walletConfig config
      \<and> parseFriendly L (address config') = Inr addr'
      \<and> parseFriendly L (address config) \<noteq> Inr addr'
      \<longrightarrow> verifyWalletConfig L session config' = Inr False)
   \<and> (parseFriendly L (address config') = Inl e
      \<longrightarrow> verifyWalletConfig L session config' = Inl e)"
  using verifyWalletConfig_accepts [of L session config]
    verifyWalletConfig_verdict [of L config addr publicKey session]
    verifyWalletConfig_other_address [of L session config config' addr']
    verifyWalletConfig_parse_error [of L config' e session]
  by blast

theorem verifyWalletConfig_true_iff_witness:
  "verifyWalletConfig demo_lib demo_session demo_config = Inr True
   \<and> parseFriendly demo_lib (address (demo_config\<lparr>address := other_address\<rparr>))
       = Inr \<lparr>workChain = 0, hash = utf8 (take 32 other_address)\<rparr>
   \<and> verifyWalletConfig demo_lib demo_session (demo_config\<lparr>address := other_address\<rparr>)
       = Inr False
   \<and> parseFriendly demo_lib (address (demo_config\<lparr>address := bad_address\<rparr>))
       = Inl AddressError
   \<and> verifyWalletConfig demo_lib demo_session (demo_config\<lparr>address := bad_address\<rparr>)
       = Inl AddressError"
proof -
  let ?other = "demo_config\<lparr>address := other_address\<rparr>"
  let ?bad = "demo_config\<lparr>address := bad_address\<rparr>"
  let ?addr' = "\<lparr>workChain = 0, hash = utf8 (take 32 other_address)\<rparr>"
  have t: "verifyWalletConfig demo_lib demo_session demo_config = Inr True"
    by code_simp
  have o1: "walletType ?other = walletType demo_config"
    and o2: "walletConfig ?other = walletConfig demo_config"
    by simp_all
  have o3: "parseFriendly demo_lib (address ?other) = Inr ?addr'"
    by code_simp
  have o4: "parseFriendly demo_lib (address demo_config) \<noteq> Inr ?addr'"
    by code_simp
  have b: "parseFriendly demo_lib (address ?bad) = Inl AddressError"
    by code_simp
  from verifyWalletConfig_true_iff [of demo_lib demo_session demo_config _ _ ?other ?addr']
       t o1 o2 o3 o4
  have f: "verifyWalletConfig demo_lib demo_session ?other = Inr False"
    by blast
  from verifyWalletConfig_true_iff [of demo_lib demo_session demo_config _ _ ?bad _ AddressError]
       b
  have e: "verifyWalletConfig demo_lib demo_session ?bad = Inl AddressError"
    by blast
  from t o3 f b e show ?thesis by blast
qed

theorem changed_address_counterexample:
  "verifyWalletConfig demo_lib demo_session demo_config = Inr True
   \<and> verifyWalletConfig demo_lib demo_session
        (demo_config\<lparr>address := ''!BCDEFGHIJKLMNOPQRSTUVWXYZabcdefABCDEFGHIJKLMNOP''\<rparr>)
       = Inl AddressError"
  by code_simp


text \<open>
  C6, as amended. \<open>verifyWalletConfig\<close> returns false for an unknown wallet type whenever
  the address string parses. It has no handler for the throws of its collaborators: a
  malformed address string makes it throw before the wallet type is looked at, and a
  wallet configuration that the decoder of a known type rejects makes it throw as well.
\<close>

theorem verifyWalletConfig_failures:
  "(parseFriendly L (address config) = Inr addr
      \<and> walletType config \<noteq> ''org.ton.wallets.v4''
      \<longrightarrow> verifyWalletConfig L session config = Inr False)
   \<and> (parseFriendly L (address config) = Inl e
      \<longrightarrow> verifyWalletConfig L session config = Inl e)
   \<and> (parseFriendly L (address config) = Inr addr
      \<and> walletType config = ''org.ton.wallets.v4''
      \<and> walletV4FromConfig L (walletConfig config) = Inl e
      \<longrightarrow> verifyWalletConfig L session config = Inl e)"
  using verifyWalletConfig_unknown_type [of L config addr session]
    verifyWalletConfig_parse_error [of L config e session]
    verifyWalletConfig_decode_error [of L config addr e session]
  by blast

theorem verifyWalletConfig_failures_witness:
  "parseFriendly demo_lib (address (demo_config\<lparr>walletType := ''org.ton.wallets.v9''\<rparr>))
     = Inr \<lparr>workChain = 0, hash = utf8 (take 32 demo_address)\<rparr>
   \<and> walletType (demo_config\<lparr>walletType := ''org.ton.wallets.v9''\<rparr>) \<noteq> ''org.ton.wallets.v4''
   \<and> verifyWalletConfig demo_lib demo_session (demo_config\<lparr>walletType := ''org.ton.wallets.v9''\<rparr>)
       = Inr False
   \<and> walletV4FromConfig demo_lib (walletConfig (demo_config\<lparr>walletConfig := ''short''\<rparr>))
       = Inl DecodeError
   \<and> verifyWalletConfig demo_lib demo_session (demo_config\<lparr>walletConfig := ''short''\<rparr>)
       = Inl DecodeError"
proof -
  let ?v9 = "demo_config\<lparr>walletType := ''org.ton.wallets.v9''\<rparr>"
  let ?short = "demo_config\<lparr>walletConfig := ''short''\<rparr>"
  let ?addr = "\<lparr>workChain = 0, hash = utf8 (take 32 demo_address)\<rparr>"
  have p1: "parseFriendly demo_lib (address ?v9) = Inr ?addr"
    by code_simp
  have t1: "walletType ?v9 \<noteq> ''org.ton.wallets.v4''"
    by simp
  have p2: "parseFriendly demo_lib (address ?short) = Inr ?addr"
    by code_simp
  have t2: "walletType ?short = ''org.ton.wallets.v4''"
    by (simp add: demo_config_def)
  have d2: "walletV4FromConfig demo_lib (walletConfig ?short) = Inl DecodeError"
    by code_simp
  from verifyWalletConfig_failures [of demo_lib ?v9 ?addr demo_session] p1 t1
  have r1: "verifyWalletConfig demo_lib demo_session ?v9 = Inr False"
    by blast
  from verifyWalletConfig_failures [of demo_lib ?short ?addr demo_session DecodeError] p2 t2 d2
  have r2: "verifyWalletConfig demo_lib demo_session ?short = Inl DecodeError"
    by blast
  from p1 t1 r1 d2 r2 show ?thesis by blast
qed

theorem malformed_config_counterexample:
  "verifyWalletConfig demo_lib demo_session (demo_config\<lparr>address := ''not an address''\<rparr>)
     = Inl AddressError
   \<and> verifyWalletConfig demo_lib demo_session (demo_config\<lparr>walletConfig := ''garbage''\<rparr>)
     = Inl DecodeError"
  by code_simp

section \<open>Comment cells\<close>

text \<open>
  C8. The claim is that the comment cell of the sign job equals the text cell that
  \<open>verifySignatureResponse\<close> rebuilds, for every text. For a non-empty text both are
  \<open>comment(text)\<close> (\<open>comment_cells_agree\<close>). For an absent or empty text the code
  differs: \<open>requestSign\<close> embeds \<open>comment('')\<close>, a cell of 32 zero bits, and
  \<open>verifySignatureResponse\<close> rebuilds the empty cell.
\<close>

theorem comment_cells_differ:
  "requestSign_commentCell None = Inr (Cell (replicate 32 False) [])
   \<and> signResponse_textCell None = Inr (Cell [] [])
   \<and> requestSign_commentCell (Some []) = Inr (Cell (replicate 32 False) [])
   \<and> signResponse_textCell (Some []) = Inr (Cell [] [])"
  by code_simp

section \<open>Waiting for a session\<close>

text \<open>
  C9, as amended. If every poll returns an \<open>initing\<close> record of the connector's network,
  within \<open>R\<close> milliseconds, then \<open>awaitSessionReady\<close> with timeout \<open>T\<close> returns
  \<open>expired\<close>: at once when \<open>T \<le> 0\<close>, and otherwise less than \<open>T + R + 1000\<close>
  milliseconds after the call, the last pass being a poll followed by the 1000 ms sleep.
\<close>

theorem awaitSessionReady_expires:
  assumes polls: "\<forall>v. \<exists>n u c upd r d.
      session_reply (transport this) v (session_wait sid lu)
        = (d, Inr (initing n u (is_testnet this) c upd r)) \<and> d \<le> R"
  shows "\<exists>w'. awaitSessionReady L this sid T lu w = (Inr AwaitedExpired, w')
       \<and> clock w \<le> clock w'
       \<and> (T \<le> 0 \<longrightarrow> w' = w)
       \<and> (0 < T \<longrightarrow> clock w' < clock w + T + int R + 1000)"
proof -
  let ?res = "awaitSessionReady_loop L this sid lu (clock w + T) w"
  from awaitSessionReady_loop_expires [OF polls, of L "clock w + T" w]
  have l: "fst ?res = Inr AwaitedExpired"
    and l0: "clock w + T \<le> clock w \<longrightarrow> snd ?res = w"
    and l1: "clock w < clock w + T \<longrightarrow> clock (snd ?res) < clock w + T + int R + 1000"
    and l2: "clock w \<le> clock (snd ?res)"
    by blast+
  have "?res = (Inr AwaitedExpired, snd ?res)"
    using l by (cases ?res) simp
  then have "awaitSessionReady L this sid T lu w = (Inr AwaitedExpired, snd ?res)"
    by (simp add: awaitSessionReady_def Let_def backoff_success)
  with l0 l1 l2 show ?thesis by auto
qed

theorem awaitSessionReady_expires_counterexample:
  "awaitSessionReady demo_lib (mainnet_connector (always_initing 0)) demo_session 1 None world0
     = (Inr AwaitedExpired, \<lparr>clock = 1000, calls = [session_wait demo_session None]\<rparr>)
   \<and> \<not> (1000 \<le> (0::int) + 1 + 0)"
  by code_simp

theorem awaitSessionReady_expires_witness:
  "(\<forall>v. \<exists>n u c upd r d.
      session_reply (transport (mainnet_connector (always_initing 40))) v
        (session_wait demo_session None)
        = (d, Inr (initing n u (is_testnet (mainnet_connector (always_initing 40))) c upd r))
      \<and> d \<le> 40)
   \<and> (\<exists>w'. awaitSessionReady demo_lib (mainnet_connector (always_initing 40)) demo_session
              1500 None world0 = (Inr AwaitedExpired, w')
          \<and> clock world0 \<le> clock w' \<and> clock w' < clock world0 + 1500 + 40 + 1000)"
proof -
  let ?conn = "mainnet_connector (always_initing 40)"
  have polls: "\<forall>v. \<exists>n u c upd r d.
      session_reply (transport ?conn) v (session_wait demo_session None)
        = (d, Inr (initing n u (is_testnet ?conn) c upd r)) \<and> d \<le> 40"
    by (auto simp: mainnet_connector_def always_initing_def demo_initing_def is_testnet_def)
  from awaitSessionReady_expires [OF polls, of demo_lib 1500 world0]
  have "\<exists>w'. awaitSessionReady demo_lib ?conn demo_session 1500 None world0
              = (Inr AwaitedExpired, w')
          \<and> clock world0 \<le> clock w' \<and> clock w' < clock world0 + 1500 + 40 + 1000"
    by auto
  with polls show ?thesis by blast
qed

section \<open>Requests\<close>

text \<open>
  C7. When the session derived from the seed is not \<open>ready\<close>, or is \<open>ready\<close> with a
  wallet whose \<open>appPublicKey\<close> differs from the request's, \<open>requestSign\<close> and
  \<open>requestTransaction\<close> return \<open>invalid_session\<close> as a value, in the world left by the
  session check: the only transport calls made are the \<open>session_get\<close> calls of that check,
  so no \<open>command_new\<close> is sent.
\<close>

theorem invalid_session_no_submission:
  assumes "idFromSeed L seed = Inr sid"
    and "backoff L (getSessionState L this sid) w = (Inr st, w1)"
    and "\<forall>n u c upd wlt. st = StateReady n u c upd wlt
           \<longrightarrow> TonhubWalletConfig.appPublicKey wlt \<noteq> key"
  shows "(req_seed sreq = seed \<and> req_appPublicKey sreq = key
            \<longrightarrow> requestSign L this sreq w = Some (Inr sign_invalid_session, w1))
       \<and> (req_seed treq = seed \<and> req_appPublicKey treq = key
            \<longrightarrow> requestTransaction L this treq w = Some (Inr tx_invalid_session, w1))
       \<and> (\<exists>cs. calls w1 = calls w @ cs \<and> (\<forall>c\<in>set cs. c = session_get sid))"
proof -
  have s: "requestSign L this sreq w = Some (Inr sign_invalid_session, w1)"
    if "req_seed sreq = seed" "req_appPublicKey sreq = key"
    using assms that by (cases st) (simp_all add: requestSign_def)
  have t: "requestTransaction L this treq w = Some (Inr tx_invalid_session, w1)"
    if "req_seed treq = seed" "req_appPublicKey treq = key"
    using assms that by (cases st) (simp_all add: requestTransaction_def)
  from backoff_getSessionState_calls [of L this sid w] assms(2)
  have "\<exists>cs. calls w1 = calls w @ cs \<and> (\<forall>c\<in>set cs. c = session_get sid)"
    by simp
  with s t show ?thesis by blast
qed

theorem invalid_session_no_submission_witness:
  "idFromSeed demo_lib demo_session = Inr demo_session
   \<and> backoff demo_lib
        (getSessionState demo_lib (mainnet_connector (scripted 7 [demo_initing False] []))
           demo_session) world0
      = (Inr (StateIniting ''App'' ''https://app.example'' 1 2),
         \<lparr>clock = 7, calls = [session_get demo_session]\<rparr>)
   \<and> requestSign demo_lib (mainnet_connector (scripted 7 [demo_initing False] []))
        demo_sign_request world0
      = Some (Inr sign_invalid_session, \<lparr>clock = 7, calls = [session_get demo_session]\<rparr>)
   \<and> requestTransaction demo_lib (mainnet_connector (scripted 7 [demo_initing False] []))
        demo_transaction_request world0
      = Some (Inr tx_invalid_session, \<lparr>clock = 7, calls = [session_get demo_session]\<rparr>)
   \<and> backoff demo_lib
        (getSessionState demo_lib
           (mainnet_connector (scripted 7 [demo_ready demo_config False False] []))
           demo_session) world0
      = (Inr (StateReady ''App'' ''https://app.example'' 1 2 demo_config),
         \<lparr>clock = 7, calls = [session_get demo_session]\<rparr>)
   \<and> TonhubWalletConfig.appPublicKey demo_config \<noteq> ''another key''
   \<and> requestSign demo_lib
        (mainnet_connector (scripted 7 [demo_ready demo_config False False] []))
        (demo_sign_request\<lparr>req_appPublicKey := ''another key''\<rparr>) world0
      = Some (Inr sign_invalid_session, \<lparr>clock = 7, calls = [session_get demo_session]\<rparr>)"
proof -
  let ?conn = "mainnet_connector (scripted 7 [demo_initing False] [])"
  let ?st = "StateIniting ''App'' ''https://app.example'' 1 2"
  let ?conn' = "mainnet_connector (scripted 7 [demo_ready demo_config False False] [])"
  let ?st' = "StateReady ''App'' ''https://app.example'' 1 2 demo_config"
  let ?w1 = "\<lparr>clock = 7, calls = [session_get demo_session]\<rparr>"
  have h1: "idFromSeed demo_lib demo_session = Inr demo_session"
    by code_simp
  have h2: "backoff demo_lib (getSessionState demo_lib ?conn demo_session) world0
            = (Inr ?st, ?w1)"
    by code_simp
  have h3: "\<forall>n u c upd wlt. ?st = StateReady n u c upd wlt
           \<longrightarrow> TonhubWalletConfig.appPublicKey wlt \<noteq> demo_session"
    by simp
  have r1: "req_seed demo_sign_request = demo_session
            \<and> req_appPublicKey demo_sign_request = demo_session"
    and r2: "req_seed demo_transaction_request = demo_session
            \<and> req_appPublicKey demo_transaction_request = demo_session"
    by (simp_all add: demo_sign_request_def demo_transaction_request_def)
  from invalid_session_no_submission
         [OF h1 h2 h3, of demo_sign_request demo_transaction_request] r1 r2
  have a: "requestSign demo_lib ?conn demo_sign_request world0
             = Some (Inr sign_invalid_session, ?w1)
         \<and> requestTransaction demo_lib ?conn demo_transaction_request world0
             = Some (Inr tx_invalid_session, ?w1)"
    by blast
  have k2: "backoff demo_lib (getSessionState demo_lib ?conn' demo_session) world0
            = (Inr ?st', ?w1)"
    by code_simp
  have k: "TonhubWalletConfig.appPublicKey demo_config \<noteq> ''another key''"
    by code_simp
  then have k3: "\<forall>n u c upd wlt. ?st' = StateReady n u c upd wlt
           \<longrightarrow> TonhubWalletConfig.appPublicKey wlt \<noteq> ''another key''"
    by simp
  have r3: "req_seed (demo_sign_request\<lparr>req_appPublicKey := ''another key''\<rparr>) = demo_session
            \<and> req_appPublicKey (demo_sign_request\<lparr>req_appPublicKey := ''another key''\<rparr>)
                = ''another key''"
    by (simp add: demo_sign_request_def)
  from invalid_session_no_submission
         [OF h1 k2 k3, of "demo_sign_request\<lparr>req_appPublicKey := ''another key''\<rparr>"] r3
  have b: "requestSign demo_lib ?conn'
             (demo_sign_request\<lparr>req_appPublicKey := ''another key''\<rparr>) world0
           = Some (Inr sign_invalid_session, ?w1)"
    by blast
  from h1 h2 a k2 k b show ?thesis by blast
qed

section \<open>Integrity failures\<close>

text \<open>
  C2. For a relay session record that is \<open>ready\<close>, not revoked and on the connector's
  network, whose wallet configuration fails \<open>verifyWalletConfig\<close>, the normalisation raises
  the integrity error, and \<open>getSessionState\<close> and \<open>waitForSessionState\<close> raise it to their
  caller after the one call that fetched the record: no session-state value is returned and
  the fetch is not repeated. The retry wrapper is the one the specification describes.
\<close>

theorem integrity_failure_is_fatal:
  assumes "is_ready ex" and "\<not> revoked ex" and "testnet ex = is_testnet this"
    and "verifyWalletConfig L sid (wallet ex) = Inr False"
  shows "ensureSessionStateCorrect L this sid ex = Inl IntegrityError
    \<and> (session_reply (transport this) w (session_get sid) = (d, Inr ex) \<longrightarrow>
         getSessionState L this sid w
           = (Inl IntegrityError, after_call w (session_get sid) d))
    \<and> (session_reply (transport this) w (session_wait sid lu) = (d, Inr ex) \<longrightarrow>
         waitForSessionState L this sid lu w
           = (Inl IntegrityError, after_call w (session_wait sid lu) d))"
proof -
  have norm: "ensureSessionStateCorrect L this sid ex = Inl IntegrityError"
    using assms by (rule integrity_error)
  have fatal: "\<not> retryable IntegrityError"
    by (simp add: retryable_def)
  have "getSessionState L this sid w
          = (Inl IntegrityError, after_call w (session_get sid) d)"
    if "session_reply (transport this) w (session_get sid) = (d, Inr ex)"
    unfolding getSessionState_def
    by (rule backoff_fatal [OF _ fatal]) (simp add: fetch_session_reply [OF that] norm)
  moreover have "waitForSessionState L this sid lu w
          = (Inl IntegrityError, after_call w (session_wait sid lu) d)"
    if "session_reply (transport this) w (session_wait sid lu) = (d, Inr ex)"
    unfolding waitForSessionState_def
    by (rule backoff_fatal [OF _ fatal]) (simp add: fetch_session_reply [OF that] norm)
  ultimately show ?thesis using norm by blast
qed

theorem integrity_failure_is_fatal_witness:
  "is_ready (demo_ready forged_config False False)
   \<and> \<not> revoked (demo_ready forged_config False False)
   \<and> testnet (demo_ready forged_config False False)
       = is_testnet (mainnet_connector
           (scripted 7 [demo_ready forged_config False False, demo_initing False] []))
   \<and> verifyWalletConfig demo_lib demo_session (wallet (demo_ready forged_config False False))
       = Inr False
   \<and> session_reply
        (transport (mainnet_connector
           (scripted 7 [demo_ready forged_config False False, demo_initing False] [])))
        world0 (session_get demo_session)
       = (7, Inr (demo_ready forged_config False False))
   \<and> getSessionState demo_lib
        (mainnet_connector
           (scripted 7 [demo_ready forged_config False False, demo_initing False] []))
        demo_session world0
       = (Inl IntegrityError, \<lparr>clock = 7, calls = [session_get demo_session]\<rparr>)"
proof -
  let ?ex = "demo_ready forged_config False False"
  let ?conn = "mainnet_connector (scripted 7 [?ex, demo_initing False] [])"
  have h1: "is_ready ?ex" and h2: "\<not> revoked ?ex"
    by (simp_all add: demo_ready_def)
  have h3: "testnet ?ex = is_testnet ?conn"
    by (simp add: demo_ready_def is_testnet_def mainnet_connector_def)
  have h4: "verifyWalletConfig demo_lib demo_session (wallet ?ex) = Inr False"
    by code_simp
  have r: "session_reply (transport ?conn) world0 (session_get demo_session) = (7, Inr ?ex)"
    by (simp add: mainnet_connector_def scripted_def world0_def)
  have a: "after_call world0 (session_get demo_session) 7
           = \<lparr>clock = 7, calls = [session_get demo_session]\<rparr>"
    by (simp add: after_call_def world0_def)
  from integrity_failure_is_fatal [OF h1 h2 h3 h4, of world0 7] r a h1 h2 h3 h4
  show ?thesis by simp
qed

section \<open>Sign results\<close>

text \<open>
  C5, as amended. \<open>verifySignatureResponse\<close> returns true exactly when the wallet address
  parses, the key and address extracted from the wallet configuration exist with that
  address, and \<open>safeSignVerify\<close> accepts the signature under the extracted key over the
  node that references the text cell (\<open>comment(text)\<close>, or the empty cell for an absent or
  empty text) and the payload cell (the request's payload, or the empty cell).
  \<open>requestSign\<close> returns \<open>success\<close> only when job polling ended in \<open>completed\<close>, the
  result blob decodes to a cell of at least 64 bytes and those bytes pass that verification
  for the session's wallet configuration and the request's text and payload. When polling
  ends in \<open>completed\<close> and the 64 bytes are read, a true verdict gives \<open>success\<close> with the
  signature and a false verdict gives \<open>rejected\<close>. A result blob that does not decode or
  holds fewer than 64 bytes, and a verification that throws, make \<open>requestSign\<close> throw.
\<close>

theorem requestSign_verifies_result:
  "(verifySignatureResponse L sg text payload config = Inr True \<longleftrightarrow>
     (\<exists>addr publicKey textCell payloadCell.
        parseFriendly L (address config) = Inr addr
      \<and> extractPublicKeyAndAddress L (walletType config) (walletConfig config)
          = Inr (Some (publicKey, addr))
      \<and> (case text of
            None \<Rightarrow> Inr (Cell [] [])
          | Some t \<Rightarrow> if t = [] then Inr (Cell [] []) else comment t) = Inr textCell
      \<and> (case payload of
            None \<Rightarrow> Inr (Cell [] [])
          | Some p \<Rightarrow> fromBoc L (fromBase64 L p)) = Inr payloadCell
      \<and> safeSignVerify L (signResponsePayload textCell payloadCell)
          (fromBase64 L sg) publicKey = Inr True))
   \<and> (requestSign L this request w = Some (Inr (sign_success s), w') \<longrightarrow>
      (\<exists>sid n u c upd wlt w1 boc w2 r cellRes resSignature.
          idFromSeed L (req_seed request) = Inr sid
        \<and> backoff L (getSessionState L this sid) w = (Inr (StateReady n u c upd wlt), w1)
        \<and> priv_awaitJobState L this (req_appPublicKey request) boc w2
             = Some (Inr (awaited_completed r), w')
        \<and> fromBoc L (fromBase64 L r) = Inr cellRes
        \<and> loadBuffer 64 cellRes = Inr resSignature
        \<and> s = toBase64 L resSignature
        \<and> verifySignatureResponse L s (req_text request) (req_payload request) wlt
             = Inr True))
   \<and> (idFromSeed L (req_seed request) = Inr sid
        \<and> backoff L (getSessionState L this sid) w = (Inr (StateReady n u c upd wlt), w1)
        \<and> TonhubWalletConfig.appPublicKey wlt = req_appPublicKey request
        \<and> andThen (requestSign_job L wlt request (clock w1))
             (signedPackage L (req_seed request)) = Inr boc
        \<and> backoff L (call_ok this (command_new boc)) w1 = (Inr ok, w2)
        \<and> priv_awaitJobState L this (req_appPublicKey request) boc w2
             = Some (Inr (awaited_completed r), w3)
      \<longrightarrow> (fromBoc L (fromBase64 L r) = Inr cellRes
             \<and> loadBuffer 64 cellRes = Inr resSignature
             \<and> verifySignatureResponse L (toBase64 L resSignature)
                  (req_text request) (req_payload request) wlt = Inr True
             \<longrightarrow> requestSign L this request w
                   = Some (Inr (sign_success (toBase64 L resSignature)), w3))
          \<and> (fromBoc L (fromBase64 L r) = Inr cellRes
             \<and> loadBuffer 64 cellRes = Inr resSignature
             \<and> verifySignatureResponse L (toBase64 L resSignature)
                  (req_text request) (req_payload request) wlt = Inr False
             \<longrightarrow> requestSign L this request w = Some (Inr sign_rejected, w3))
          \<and> (fromBoc L (fromBase64 L r) = Inl e
             \<longrightarrow> requestSign L this request w = Some (Inl e, w3))
          \<and> (fromBoc L (fromBase64 L r) = Inr cellRes \<and> length (bits cellRes) < 512
             \<longrightarrow> requestSign L this request w = Some (Inl BuilderError, w3))
          \<and> (fromBoc L (fromBase64 L r) = Inr cellRes
             \<and> loadBuffer 64 cellRes = Inr resSignature
             \<and> verifySignatureResponse L (toBase64 L resSignature)
                  (req_text request) (req_payload request) wlt = Inl e
             \<longrightarrow> requestSign L this request w = Some (Inl e, w3)))"
proof -
  have b: "requestSign L this request w
             = Some (requestSign_finish L wlt request (awaited_completed r), w3)"
    if "idFromSeed L (req_seed request) = Inr sid"
      and "backoff L (getSessionState L this sid) w = (Inr (StateReady n u c upd wlt), w1)"
      and "TonhubWalletConfig.appPublicKey wlt = req_appPublicKey request"
      and "andThen (requestSign_job L wlt request (clock w1))
             (signedPackage L (req_seed request)) = Inr boc"
      and "backoff L (call_ok this (command_new boc)) w1 = (Inr ok, w2)"
      and "priv_awaitJobState L this (req_appPublicKey request) boc w2
             = Some (Inr (awaited_completed r), w3)"
    using that by (rule requestSign_completed)
  show ?thesis
    using requestSign_success [of L this request w s w'] b
      verifySignatureResponse_accepts [of L sg "text" payload config]
      loadBuffer_short [of cellRes]
    by (auto simp del: split_paired_Ex simp: requestSign_finish_cases)
qed

theorem requestSign_verifies_result_witness:
  "safeSignVerify demo_lib (signResponsePayload demo_text_cell (Cell [] []))
       (fromBase64 demo_lib (demo_response CHR ''0'')) demo_key = Inr True
   \<and> verifySignatureResponse demo_lib (demo_response CHR ''0'')
       (req_text demo_sign_request) (req_payload demo_sign_request) demo_config = Inr True
   \<and> requestSign demo_lib (mainnet_connector (demo_relay (demo_response CHR ''0'')))
        demo_sign_request world0
      = Some (Inr (sign_success (demo_response CHR ''0'')),
              demo_world 21 [session_get demo_session, command_new demo_boc,
                             command_get demo_session])
   \<and> verifySignatureResponse demo_lib (demo_response CHR ''1'')
       (req_text demo_sign_request) (req_payload demo_sign_request) demo_config = Inr False
   \<and> requestSign demo_lib (mainnet_connector (demo_relay (demo_response CHR ''1'')))
        demo_sign_request world0
      = Some (Inr sign_rejected,
              demo_world 21 [session_get demo_session, command_new demo_boc,
                             command_get demo_session])
   \<and> fromBoc demo_lib (fromBase64 demo_lib []) = Inl DecodeError
   \<and> requestSign demo_lib (mainnet_connector (demo_relay [])) demo_sign_request world0
      = Some (Inl DecodeError,
              demo_world 21 [session_get demo_session, command_new demo_boc,
                             command_get demo_session])"
proof -
  let ?w1 = "demo_world 7 [session_get demo_session]"
  let ?w2 = "demo_world 14 [session_get demo_session, command_new demo_boc]"
  let ?w3 = "demo_world 21 [session_get demo_session, command_new demo_boc,
                            command_get demo_session]"
  let ?good = "demo_response CHR ''0''"
  let ?bad = "demo_response CHR ''1''"
  have run: "idFromSeed demo_lib (req_seed demo_sign_request) = Inr demo_session
      \<and> backoff demo_lib
          (getSessionState demo_lib (mainnet_connector (demo_relay res)) demo_session) world0
        = (Inr (StateReady ''App'' ''https://app.example'' 1 2 demo_config), ?w1)
      \<and> TonhubWalletConfig.appPublicKey demo_config = req_appPublicKey demo_sign_request
      \<and> andThen (requestSign_job demo_lib demo_config demo_sign_request (clock ?w1))
           (signedPackage demo_lib (req_seed demo_sign_request)) = Inr demo_boc
      \<and> backoff demo_lib
          (call_ok (mainnet_connector (demo_relay res)) (command_new demo_boc)) ?w1
        = (Inr True, ?w2)
      \<and> priv_awaitJobState demo_lib (mainnet_connector (demo_relay res))
          (req_appPublicKey demo_sign_request) demo_boc ?w2
        = Some (Inr (awaited_completed res), ?w3)"
    if "res = ?good \<or> res = ?bad \<or> res = []" for res
    using that by (elim disjE; hypsubst) code_simp+
  have decode: "fromBoc demo_lib (fromBase64 demo_lib res)
                  = Inr (Cell (buffer_bits (utf8 res)) [])
      \<and> loadBuffer 64 (Cell (buffer_bits (utf8 res)) []) = Inr (utf8 res)
      \<and> toBase64 demo_lib (utf8 res) = res"
    if "res = ?good \<or> res = ?bad" for res
    using that by (elim disjE; hypsubst) code_simp+
  have fields: "req_text demo_sign_request = Some ''hi''"
      "req_payload demo_sign_request = None"
    by (simp_all add: demo_sign_request_def)
  have pf: "parseFriendly demo_lib (address demo_config) = Inr demo_parsed_address"
    by code_simp
  have ex: "extractPublicKeyAndAddress demo_lib (walletType demo_config)
              (walletConfig demo_config) = Inr (Some (demo_key, demo_parsed_address))"
    by code_simp
  have tc: "(case Some ''hi'' of
               None \<Rightarrow> Inr (Cell [] [])
             | Some t \<Rightarrow> if t = [] then Inr (Cell [] []) else comment t)
            = Inr demo_text_cell"
    by code_simp
  have pc: "(case None of
               None \<Rightarrow> Inr (Cell [] [])
             | Some p \<Rightarrow> fromBoc demo_lib (fromBase64 demo_lib p))
            = Inr (Cell [] [])"
    by simp
  have sv: "safeSignVerify demo_lib (signResponsePayload demo_text_cell (Cell [] []))
              (fromBase64 demo_lib ?good) demo_key = Inr True"
    by code_simp
  have "verifySignatureResponse demo_lib ?good (Some ''hi'') None demo_config = Inr True"
    by (rule requestSign_verifies_result
               [of demo_lib ?good "Some ''hi''" None demo_config, THEN conjunct1, THEN iffD2])
       (use pf ex tc pc sv in blast)
  with fields
  have good: "verifySignatureResponse demo_lib ?good
       (req_text demo_sign_request) (req_payload demo_sign_request) demo_config = Inr True"
    by simp
  have bad: "verifySignatureResponse demo_lib ?bad
       (req_text demo_sign_request) (req_payload demo_sign_request) demo_config = Inr False"
    by code_simp
  have empty: "fromBoc demo_lib (fromBase64 demo_lib []) = Inl DecodeError"
    by code_simp
  from requestSign_verifies_result
         [of demo_lib _ _ _ _ "mainnet_connector (demo_relay ?good)"
             demo_sign_request world0 _ _ demo_session "''App''" "''https://app.example''" 1 2
             demo_config ?w1 demo_boc True ?w2 ?good ?w3
             "Cell (buffer_bits (utf8 ?good)) []" "utf8 ?good"]
       run [of ?good] decode [of ?good] good
  have s: "requestSign demo_lib (mainnet_connector (demo_relay ?good))
        demo_sign_request world0 = Some (Inr (sign_success ?good), ?w3)"
    by simp
  from requestSign_verifies_result
         [of demo_lib _ _ _ _ "mainnet_connector (demo_relay ?bad)"
             demo_sign_request world0 _ _ demo_session "''App''" "''https://app.example''" 1 2
             demo_config ?w1 demo_boc True ?w2 ?bad ?w3
             "Cell (buffer_bits (utf8 ?bad)) []" "utf8 ?bad"]
       run [of ?bad] decode [of ?bad] bad
  have r: "requestSign demo_lib (mainnet_connector (demo_relay ?bad))
        demo_sign_request world0 = Some (Inr sign_rejected, ?w3)"
    by simp
  from requestSign_verifies_result
         [of demo_lib _ _ _ _ "mainnet_connector (demo_relay [])"
             demo_sign_request world0 _ _ demo_session "''App''" "''https://app.example''" 1 2
             demo_config ?w1 demo_boc True ?w2 "[]" ?w3 _ _ DecodeError]
       run [of "[]"] empty
  have t: "requestSign demo_lib (mainnet_connector (demo_relay []))
        demo_sign_request world0 = Some (Inl DecodeError, ?w3)"
    by simp
  from sv good s bad r empty t show ?thesis by blast
qed

theorem unreadable_result_counterexample:
  "priv_awaitJobState demo_lib (mainnet_connector (demo_relay ''short''))
       (req_appPublicKey demo_sign_request) demo_boc
       (demo_world 14 [session_get demo_session, command_new demo_boc])
     = Some (Inr (awaited_completed ''short''),
             demo_world 21 [session_get demo_session, command_new demo_boc,
                            command_get demo_session])
   \<and> requestSign demo_lib (mainnet_connector (demo_relay ''short'')) demo_sign_request world0
     = Some (Inl BuilderError,
             demo_world 21 [session_get demo_session, command_new demo_boc,
                            command_get demo_session])"
  by code_simp

end
